theory Spec2Isabelle
  imports Complex_Main "HOL-Library.Word"
begin

text \<open>
  A shallow embedding of the real-time transcription pipeline: the voice activity
  detector, the chunker and PCM conversion of \<open>RealtimeTranscriptionProcessor\<close>, the
  WebSocket session of \<open>OptimizedTranscriptionService\<close> and the orchestration of
  \<open>EnhancedTranscriptionManager\<close>.

  \<^item> JavaScript numbers are reals; NaN, the one non-real value the modelled code can
    produce, is \<open>None\<close> of \<open>real option\<close>. Audio samples are finite, so NaN only
    arises from \<open>0 / 0\<close>.
  \<^item> \<open>Date.now()\<close> is an \<open>int\<close> (milliseconds) handed in by the caller; all reads
    of the clock inside one handler invocation see the same value. \<open>Math.random()\<close>
    is handed in as well.
  \<^item> A callback passed to a constructor is a trace: the list of the calls made to it so
    far (\<open>transcriptionCalls\<close>, \<open>connectionStateCalls\<close>, \<open>errorCalls\<close>).
  \<^item> The browser is a record of its own: the timers that are active, every timer ever
    scheduled, and a counter of the sockets constructed.
  \<^item> An \<open>async\<close> method runs to its end in one step; what each awaited operation
    yields (a stream, an opened or timed-out socket, a started worklet) is a field of an
    environment record. A promise that is never settled is the result \<open>None\<close>.
  \<^item> Objects that no modelled branch inspects (audio contexts, the worklet manager) are
    opaque handles; the metrics record of the manager and the effect of
    \<open>track.stop()\<close> on a stream are left out.
\<close>

section \<open>Numbers and strings\<close>

definition digit_char :: "nat \<Rightarrow> char" where
  "digit_char d = ''0123456789'' ! d"

fun decimal_digits :: "nat \<Rightarrow> string" where
  "decimal_digits n =
     (if 10 \<le> n then decimal_digits (n div 10) @ [digit_char (n mod 10)]
      else [digit_char n])"

declare decimal_digits.simps [simp del]

definition number_toString :: "int \<Rightarrow> string" where
  \<comment> \<open>an integer in a template literal, or \<open>toString()\<close> of it\<close>
  "number_toString i =
     (if 0 \<le> i then decimal_digits (nat i) else CHR ''-'' # decimal_digits (nat (- i)))"

definition math_round :: "real \<Rightarrow> int" where
  \<comment> \<open>\<open>Math.round\<close>: nearest integer, ties towards plus infinity\<close>
  "math_round y = \<lfloor>y + 1 / 2\<rfloor>"

section \<open>VoiceActivityDetector\<close>

definition historySize :: nat where
  "historySize = 10"

definition calculateEnergy :: "real list \<Rightarrow> real option" where
  \<comment> \<open>\<open>Math.sqrt(sumSquares / audioData.length)\<close>; an empty frame gives \<open>0 / 0\<close>, NaN\<close>
  "calculateEnergy audioData =
     (if audioData = [] then None
      else Some (sqrt (foldl (\<lambda>sumSquares x. sumSquares + x * x) 0 audioData
                       / real (length audioData))))"

fun math_min :: "real \<Rightarrow> real list \<Rightarrow> real" where
  "math_min m [] = m"
| "math_min m (x # xs) = math_min (min m x) xs"

definition calculateBackgroundNoise :: "real option list \<Rightarrow> real option" where
  \<comment> \<open>\<open>Math.min(...energyHistory)\<close> is NaN as soon as one entry is NaN\<close>
  "calculateBackgroundNoise energyHistory =
     (case energyHistory of
        [] \<Rightarrow> Some 0.001
      | e # es \<Rightarrow>
          (if None \<in> set energyHistory then None
           else Some (math_min (the e) (map the es))))"

definition vad_isSpeech :: "real option \<Rightarrow> real option \<Rightarrow> bool" where
  \<comment> \<open>\<open>energy > threshold\<close>; a comparison with NaN is false\<close>
  "vad_isSpeech energy threshold =
     (case (energy, threshold) of (Some e, Some t) \<Rightarrow> e > t | _ \<Rightarrow> False)"

definition vad_confidence :: "real option \<Rightarrow> real option \<Rightarrow> real option" where
  \<comment> \<open>\<open>Math.max(0, Math.min(1.0, energy / (threshold * 3)))\<close>. A zero divisor gives
      plus or minus Infinity, which the two clamps turn into 1 or 0, or NaN for
      \<open>0 / 0\<close>, which both clamps pass on.\<close>
  "vad_confidence energy threshold =
     (case (energy, threshold) of
        (Some e, Some t) \<Rightarrow>
          (if t * 3 = 0
           then (if e > 0 then Some 1 else if e < 0 then Some 0 else None)
           else Some (max 0 (min 1 (e / (t * 3)))))
      | _ \<Rightarrow> None)"

definition detectVoiceActivity ::
  "real list \<Rightarrow> real option list \<Rightarrow> (bool \<times> real option) \<times> real option list" where
  \<comment> \<open>takes the frame and \<open>energyHistory\<close>; returns \<open>(isSpeech, confidence)\<close> and the
      updated history\<close>
  "detectVoiceActivity audioData energyHistory =
     (let energy = calculateEnergy audioData;
          pushed = energyHistory @ [energy];
          history = (if length pushed > historySize then tl pushed else pushed);
          backgroundNoise = calculateBackgroundNoise history;
          threshold = map_option (\<lambda>b. b * 2) backgroundNoise
      in ((vad_isSpeech energy threshold, vad_confidence energy threshold), history))"

fun vad_calls :: "real list list \<Rightarrow> real option list \<Rightarrow> real option list" where
  \<comment> \<open>consecutive calls of \<open>detectVoiceActivity\<close> on the same detector\<close>
  "vad_calls [] h = h"
| "vad_calls (f # fs) h = vad_calls fs (snd (detectVoiceActivity f h))"

section \<open>RealtimeTranscriptionProcessor\<close>

subsection \<open>PCM conversion\<close>

definition applyDithering :: "real \<Rightarrow> real \<Rightarrow> real" where
  \<comment> \<open>\<open>r\<close> is the value of \<open>Math.random()\<close>\<close>
  "applyDithering r sample = sample + (r - 0.5) * 0.001"

definition convertSample :: "real \<Rightarrow> real \<Rightarrow> 16 word" where
  \<comment> \<open>the loop body of \<open>convertToPCM\<close>; storing into an \<open>Int16Array\<close> wraps modulo
      \<open>2 ^ 16\<close>\<close>
  "convertSample r x =
     word_of_int (math_round (applyDithering r (max (- 1) (min 1 x)) * 32767))"

definition convertToPCM :: "(nat \<Rightarrow> real) \<Rightarrow> real list \<Rightarrow> 16 word list" where
  \<comment> \<open>\<open>rnd i\<close> is the value \<open>Math.random()\<close> returns for sample \<open>i\<close>\<close>
  "convertToPCM rnd float32Data =
     map (\<lambda>i. convertSample (rnd i) (float32Data ! i)) [0..<length float32Data]"

subsection \<open>Streams (\<open>AudioErrorHandler.validateAudioStream\<close>)\<close>

datatype TrackState = Live | Ended

record MediaStreamTrack =
  kind :: string
  track_readyState :: TrackState
  enabled :: bool
  muted :: bool

type_synonym MediaStream = "MediaStreamTrack list"

definition getAudioTracks :: "MediaStream \<Rightarrow> MediaStreamTrack list" where
  "getAudioTracks stream = filter (\<lambda>track. kind track = ''audio'') stream"

definition validateAudioStream :: "MediaStream option \<Rightarrow> bool" where
  "validateAudioStream stream =
     (case stream of
        None \<Rightarrow> False
      | Some s \<Rightarrow>
          (let audioTracks = getAudioTracks s in
           if length audioTracks = 0 then False
           else let validTracks =
                      filter (\<lambda>track. track_readyState track = Live
                                       \<or> (enabled track \<and> \<not> muted track)) audioTracks
                in if length validTracks = 0 then False else True))"

subsection \<open>Chunking\<close>

text \<open>
  \<open>processAudioFrame\<close> and the methods below it return the new processor state and
  the calls they make to the processor's transcription callback, as
  \<open>(text, confidence)\<close> pairs in call order. \<open>processTranscriptionChunk\<close> is
  \<open>async\<close>; its continuation runs before the next frame is delivered, so its callback
  is listed with the frame that caused it. \<open>rid\<close> is the random suffix of the chunk id
  and \<open>rnd\<close> the random source of the dither.
\<close>

record TranscriptionConfig =
  sampleRate :: int
  channelCount :: int
  bitDepth :: int
  chunkDuration :: int
  overlapDuration :: int
  silenceThreshold :: real
  minSpeechDuration :: int
  maxChunkSize :: int

record AudioChunk =
  chunk_id :: string
  chunk_timestamp :: int
  chunk_data :: "16 word list"
  chunk_duration :: "real option"
  chunk_isSpeech :: bool
  chunk_confidence :: "real option"

datatype AudioContext = AudioContext

datatype AudioWorkletManager = AudioWorkletManager

record RealtimeTranscriptionProcessor =
  audioContext :: "AudioContext option"
  workletManager :: "AudioWorkletManager option"
  proc_mediaStream :: "MediaStream option"
  isProcessing :: bool
  audioBuffer :: "real list list"
  chunkQueue :: "AudioChunk list"
  lastProcessTime :: int
  silenceStartTime :: int
  isSpeaking :: bool
  proc_config :: TranscriptionConfig
  energyHistory :: "real option list"

definition new_RealtimeTranscriptionProcessor ::
  "TranscriptionConfig \<Rightarrow> RealtimeTranscriptionProcessor" where
  "new_RealtimeTranscriptionProcessor cfg =
     \<lparr>audioContext = None, workletManager = None, proc_mediaStream = None,
      isProcessing = False, audioBuffer = [], chunkQueue = [], lastProcessTime = 0,
      silenceStartTime = 0, isSpeaking = False, proc_config = cfg, energyHistory = []\<rparr>"

definition js_less :: "real option \<Rightarrow> real \<Rightarrow> bool" where
  \<comment> \<open>\<open>a < b\<close>, false when \<open>a\<close> is NaN\<close>
  "js_less a b = (case a of Some x \<Rightarrow> x < b | None \<Rightarrow> False)"

definition js_greater :: "real option \<Rightarrow> real \<Rightarrow> bool" where
  \<comment> \<open>\<open>a > b\<close>, false when \<open>a\<close> is NaN\<close>
  "js_greater a b = (case a of Some x \<Rightarrow> x > b | None \<Rightarrow> False)"

definition js_plus :: "real option \<Rightarrow> real option \<Rightarrow> real option" where
  \<comment> \<open>\<open>a + b\<close> on durations, where \<open>None\<close> is a value that is not finite\<close>
  "js_plus a b = (case (a, b) of (Some x, Some y) \<Rightarrow> Some (x + y) | _ \<Rightarrow> None)"

definition performTranscription :: "16 word list \<Rightarrow> string \<times> real" where
  \<comment> \<open>the source's stand-in for the transcription service: \<open>(text, confidence)\<close>\<close>
  "performTranscription audioData =
     (''[Audio chunk: '' @ number_toString (int (length audioData)) @ '' samples]'', 0.85)"

definition processTranscriptionChunk :: "AudioChunk \<Rightarrow> (string \<times> real option) list" where
  \<comment> \<open>the calls made to \<open>onTranscriptionCallback\<close>; a non-empty string is truthy\<close>
  "processTranscriptionChunk chunk =
     (if \<not> chunk_isSpeech chunk \<or> js_less (chunk_confidence chunk) 0.5 then []
      else let transcription = performTranscription (chunk_data chunk)
           in if fst transcription \<noteq> [] then [(fst transcription, chunk_confidence chunk)]
              else [])"

definition combineChunks :: "AudioChunk list \<Rightarrow> 16 word list" where
  "combineChunks chunks = concat (map chunk_data chunks)"

definition processAccumulatedSpeech ::
  "RealtimeTranscriptionProcessor \<Rightarrow> (string \<times> real option) list" where
  "processAccumulatedSpeech p =
     (case filter chunk_isSpeech (chunkQueue p) of
        [] \<Rightarrow> []
      | first # rest \<Rightarrow>
          processTranscriptionChunk
            (first\<lparr>chunk_data := combineChunks (first # rest),
                   chunk_duration :=
                     foldl (\<lambda>sum chunk. js_plus sum (chunk_duration chunk)) (Some 0)
                       (first # rest)\<rparr>))"

definition handleSilencePeriod ::
  "int \<Rightarrow> RealtimeTranscriptionProcessor
     \<Rightarrow> RealtimeTranscriptionProcessor \<times> (string \<times> real option) list" where
  "handleSilencePeriod currentTime p =
     (if silenceStartTime p = 0 then (p\<lparr>silenceStartTime := currentTime\<rparr>, [])
      else if currentTime - silenceStartTime p > 2000
           then (p\<lparr>silenceStartTime := 0\<rparr>, processAccumulatedSpeech p)
           else (p, []))"

definition cleanupOldChunks ::
  "int \<Rightarrow> RealtimeTranscriptionProcessor \<Rightarrow> RealtimeTranscriptionProcessor" where
  "cleanupOldChunks currentTime p =
     p\<lparr>chunkQueue := filter (\<lambda>chunk. currentTime - chunk_timestamp chunk < 30000)
                         (chunkQueue p)\<rparr>"

definition make_chunk ::
  "int \<Rightarrow> string \<Rightarrow> (nat \<Rightarrow> real) \<Rightarrow> TranscriptionConfig \<Rightarrow> real list
     \<Rightarrow> bool \<times> real option \<Rightarrow> AudioChunk" where
  \<comment> \<open>the chunk literal of \<open>processAudioChunk\<close>; with a sample rate of 0 the duration is
      Infinity or NaN, here \<open>None\<close>\<close>
  "make_chunk now rid rnd cfg combinedData vadResult =
     \<lparr>chunk_id = ''chunk_'' @ number_toString now @ ''_'' @ rid,
      chunk_timestamp = now,
      chunk_data = convertToPCM rnd combinedData,
      chunk_duration =
        (if sampleRate cfg = 0 then None
         else Some (real (length combinedData) / real_of_int (sampleRate cfg) * 1000)),
      chunk_isSpeech = fst vadResult,
      chunk_confidence = snd vadResult\<rparr>"

definition processAudioChunk ::
  "int \<Rightarrow> string \<Rightarrow> (nat \<Rightarrow> real) \<Rightarrow> RealtimeTranscriptionProcessor
     \<Rightarrow> RealtimeTranscriptionProcessor \<times> (string \<times> real option) list" where
  "processAudioChunk now rid rnd p =
     (if length (audioBuffer p) = 0 then (p, [])
      else
        let combinedData = concat (audioBuffer p);
            (vadResult, history) = detectVoiceActivity combinedData (energyHistory p);
            chunk = make_chunk now rid rnd (proc_config p) combinedData vadResult;
            p1 = p\<lparr>audioBuffer := [], energyHistory := history,
                   chunkQueue := chunkQueue p @ [chunk]\<rparr>;
            (p2, emitted) =
              (if chunk_isSpeech chunk \<and> js_greater (chunk_confidence chunk) 0.7
               then (p1, processTranscriptionChunk chunk)
               else if \<not> isSpeaking p1 then handleSilencePeriod now p1
               else (p1, []))
        in (cleanupOldChunks now p2, emitted))"

definition processAudioFrame ::
  "real list \<Rightarrow> int \<Rightarrow> string \<Rightarrow> (nat \<Rightarrow> real) \<Rightarrow> RealtimeTranscriptionProcessor
     \<Rightarrow> RealtimeTranscriptionProcessor \<times> (string \<times> real option) list" where
  "processAudioFrame audioData currentTime rid rnd p =
     (if \<not> isProcessing p then (p, [])
      else
        let p1 = p\<lparr>audioBuffer := audioBuffer p @ [audioData]\<rparr>;
            timeSinceLastProcess = currentTime - lastProcessTime p1
        in if timeSinceLastProcess \<ge> chunkDuration (proc_config p1)
           then (let (p2, emitted) = processAudioChunk currentTime rid rnd p1
                 in (p2\<lparr>lastProcessTime := currentTime\<rparr>, emitted))
           else (p1, []))"

definition processor_cleanup ::
  "RealtimeTranscriptionProcessor \<Rightarrow> RealtimeTranscriptionProcessor" where
  \<comment> \<open>\<open>cleanup()\<close>; it leaves \<open>isProcessing\<close> as it is\<close>
  "processor_cleanup p =
     p\<lparr>proc_mediaStream := None, audioContext := None, workletManager := None,
       audioBuffer := [], chunkQueue := []\<rparr>"

definition processor_stop ::
  "RealtimeTranscriptionProcessor \<Rightarrow> RealtimeTranscriptionProcessor" where
  "processor_stop p = processor_cleanup (p\<lparr>isProcessing := False\<rparr>)"

text \<open>Frames delivered one after the other, each as \<open>(samples, clock, rid, rnd)\<close>.\<close>

fun processAudioFrames ::
  "(real list \<times> int \<times> string \<times> (nat \<Rightarrow> real)) list \<Rightarrow> RealtimeTranscriptionProcessor
     \<Rightarrow> RealtimeTranscriptionProcessor \<times> (string \<times> real option) list" where
  "processAudioFrames [] p = (p, [])"
| "processAudioFrames ((audioData, now, rid, rnd) # rest) p =
     (let (p1, emitted1) = processAudioFrame audioData now rid rnd p;
          (p2, emitted2) = processAudioFrames rest p1
      in (p2, emitted1 @ emitted2))"

definition initializeProcessor_config :: "int \<Rightarrow> TranscriptionConfig" where
  \<comment> \<open>the configuration \<open>OptimizedTranscriptionService.initializeProcessor\<close> passes\<close>
  "initializeProcessor_config rate =
     \<lparr>sampleRate = rate, channelCount = 1, bitDepth = 16, chunkDuration = 500,
      overlapDuration = 100, silenceThreshold = 0.005, minSpeechDuration = 200,
      maxChunkSize = 24000\<rparr>"

subsection \<open>Starting and stopping the processor\<close>

text \<open>
  \<open>processor_env\<close> says what the awaited operations of \<open>start\<close> yield: whether
  \<open>safeAudioContextCreation\<close> returns a context, whether
  \<open>AudioWorkletManager.initialize\<close> and \<open>startProcessing\<close> resolve to true, and the
  clock at the end.
\<close>

record processor_env =
  contextCreated :: bool
  workletInitialized :: bool
  processingStarted :: bool
  startTime :: int

definition processor_start ::
  "processor_env \<Rightarrow> MediaStream option \<Rightarrow> RealtimeTranscriptionProcessor
     \<Rightarrow> bool \<times> RealtimeTranscriptionProcessor" where
  "processor_start env stream p =
     (if \<not> validateAudioStream stream then (False, processor_cleanup p)
      else
        let p1 = p\<lparr>proc_mediaStream := stream\<rparr> in
        if \<not> contextCreated env then (False, processor_cleanup (p1\<lparr>audioContext := None\<rparr>))
        else
          let p2 = p1\<lparr>audioContext := Some AudioContext,
                      workletManager := Some AudioWorkletManager\<rparr> in
          if \<not> workletInitialized env then (False, processor_cleanup p2)
          else if \<not> processingStarted env then (False, processor_cleanup p2)
          else (True, p2\<lparr>isProcessing := True, lastProcessTime := startTime env\<rparr>))"

definition fixed_random :: "real \<Rightarrow> nat \<Rightarrow> real" where
  "fixed_random r i = r"

definition live_audio_track :: MediaStreamTrack where
  "live_audio_track = \<lparr>kind = ''audio'', track_readyState = Live, enabled = True, muted = False\<rparr>"

definition started_processor :: "int \<Rightarrow> RealtimeTranscriptionProcessor" where
  "started_processor rate =
     snd (processor_start
            \<lparr>contextCreated = True, workletInitialized = True, processingStarted = True,
             startTime = 0\<rparr>
            (Some [live_audio_track])
            (new_RealtimeTranscriptionProcessor (initializeProcessor_config rate)))"

section \<open>The browser: sockets and timers\<close>

datatype ReadyState = CONNECTING | OPEN | CLOSING | CLOSED

datatype frame = Binary "8 word list" | Text string

datatype js_error = InvalidStateError | NetworkError

record WebSocket =
  ws_id :: nat
  ws_url :: string
  ws_params :: "(string \<times> string) list"
  ws_protocols :: "string list"
  readyState :: ReadyState
  sent :: "frame list"

definition ws_send :: "frame \<Rightarrow> WebSocket \<Rightarrow> js_error + WebSocket" where
  \<comment> \<open>the browser's \<open>WebSocket.send\<close>: it throws while CONNECTING, queues the frame when
      OPEN and discards it otherwise\<close>
  "ws_send d ws =
     (case readyState ws of
        CONNECTING \<Rightarrow> Inl InvalidStateError
      | OPEN \<Rightarrow> Inr (ws\<lparr>sent := sent ws @ [d]\<rparr>)
      | _ \<Rightarrow> Inr ws)"

datatype timer_callback =
  ConnectTimeoutCheck | ServiceReconnect | ConnectionCheck | CheckHealth | CollectMetrics

record timer =
  timer_id :: nat
  callback :: timer_callback
  delay :: int
  repeating :: bool

record Browser =
  nextTimerId :: nat
  activeTimers :: "timer list"
  scheduled :: "timer list"
  nextSocketId :: nat

definition new_Browser :: Browser where
  "new_Browser = \<lparr>nextTimerId = 1, activeTimers = [], scheduled = [], nextSocketId = 1\<rparr>"

definition add_timer :: "timer_callback \<Rightarrow> int \<Rightarrow> bool \<Rightarrow> Browser \<Rightarrow> nat \<times> Browser" where
  "add_timer cb ms rep b =
     (let t = \<lparr>timer_id = nextTimerId b, callback = cb, delay = ms, repeating = rep\<rparr>
      in (nextTimerId b,
          b\<lparr>nextTimerId := nextTimerId b + 1, activeTimers := activeTimers b @ [t],
            scheduled := scheduled b @ [t]\<rparr>))"

definition setTimeout :: "timer_callback \<Rightarrow> int \<Rightarrow> Browser \<Rightarrow> nat \<times> Browser" where
  "setTimeout cb ms b = add_timer cb ms False b"

definition setInterval :: "timer_callback \<Rightarrow> int \<Rightarrow> Browser \<Rightarrow> nat \<times> Browser" where
  "setInterval cb ms b = add_timer cb ms True b"

definition clearInterval :: "nat \<Rightarrow> Browser \<Rightarrow> Browser" where
  "clearInterval tid b = b\<lparr>activeTimers := filter (\<lambda>t. timer_id t \<noteq> tid) (activeTimers b)\<rparr>"

definition timer_fired :: "timer \<Rightarrow> Browser \<Rightarrow> Browser" where
  \<comment> \<open>a timeout is spent when it fires, an interval stays\<close>
  "timer_fired t b =
     (if repeating t then b
      else b\<lparr>activeTimers := filter (\<lambda>u. timer_id u \<noteq> timer_id t) (activeTimers b)\<rparr>)"

section \<open>OptimizedTranscriptionService\<close>

subsection \<open>Messages and state\<close>

text \<open>
  An inbound message is the value \<open>JSON.parse\<close> yields, dispatched on its
  \<open>type\<close>; \<open>Unparsable\<close> is a parse error, caught by the handler. A field that may
  be absent is an option.
\<close>

record word_info =
  word :: string
  word_start :: real
  word_end :: real
  word_confidence :: real

record TranscriptionResult =
  res_text :: string
  res_confidence :: "real option"
  isFinal :: bool
  res_timestamp :: int
  res_duration :: real
  res_language :: string
  res_words :: "word_info list option"

record alternative =
  transcript :: string
  alt_confidence :: "real option"
  alt_words :: "word_info list option"

record channel_data =
  alternatives :: "alternative list option"

record results_data =
  channel :: "channel_data option"
  is_final :: "bool option"
  msg_duration :: "real option"
  msg_language :: "string option"

datatype message =
  Unparsable | Results results_data | Metadata | UtteranceEnd | OtherType

record HighDefinitionAudioProcessor =
  hd_audioContext :: "AudioContext option"

record TranscriptionServiceConfig =
  cfg_apiKey :: string
  cfg_apiUrl :: string
  cfg_language :: string
  cfg_model :: string
  cfg_enableHD :: bool
  cfg_enableRealtime :: bool
  cfg_sampleRate :: int
  maxReconnectAttempts :: int
  reconnectDelay :: int

record OptimizedTranscriptionService =
  websocket :: "WebSocket option"
  audioProcessor :: "RealtimeTranscriptionProcessor option"
  hdProcessor :: "HighDefinitionAudioProcessor option"
  config :: TranscriptionServiceConfig
  isConnected :: bool
  reconnectAttempts :: int
  mediaStream :: "MediaStream option"
  connectionCheckInterval :: "nat option"
  lastHeartbeatTime :: int
  transcriptionCalls :: "TranscriptionResult list"
  connectionStateCalls :: "bool list"

definition new_OptimizedTranscriptionService ::
  "TranscriptionServiceConfig \<Rightarrow> OptimizedTranscriptionService" where
  "new_OptimizedTranscriptionService cfg =
     \<lparr>websocket = None, audioProcessor = None, hdProcessor = None, config = cfg,
      isConnected = False, reconnectAttempts = 0, mediaStream = None,
      connectionCheckInterval = None, lastHeartbeatTime = 0,
      transcriptionCalls = [], connectionStateCalls = []\<rparr>"

subsection \<open>Connecting, reconnecting and stopping\<close>

definition getKeywords :: "string list" where
  "getKeywords =
     [''interview'', ''candidate'', ''experience'', ''skills'', ''qualifications'',
      ''position'', ''company'', ''team'', ''project'', ''technology'']"

fun join :: "string \<Rightarrow> string list \<Rightarrow> string" where
  "join sep [] = []"
| "join sep [x] = x"
| "join sep (x # y # ys) = x @ sep @ join sep (y # ys)"

definition connection_params :: "TranscriptionServiceConfig \<Rightarrow> (string \<times> string) list" where
  "connection_params cfg =
     [(''model'', cfg_model cfg), (''language'', cfg_language cfg),
      (''encoding'', ''linear16''), (''sample_rate'', number_toString (cfg_sampleRate cfg)),
      (''channels'', ''1''), (''interim_results'', ''true''), (''punctuate'', ''true''),
      (''profanity_filter'', ''false''), (''smart_format'', ''true''), (''diarize'', ''true''),
      (''filler_words'', ''false''), (''keywords'', join '','' getKeywords)]"

definition disconnectWebSocket ::
  "OptimizedTranscriptionService \<Rightarrow> OptimizedTranscriptionService" where
  \<comment> \<open>\<open>close()\<close> acts on the socket object, which the service then forgets\<close>
  "disconnectWebSocket s = (case websocket s of None \<Rightarrow> s | Some ws \<Rightarrow> s\<lparr>websocket := None\<rparr>)"

definition service_stop ::
  "OptimizedTranscriptionService \<Rightarrow> Browser \<Rightarrow> OptimizedTranscriptionService \<times> Browser" where
  \<comment> \<open>\<open>stop()\<close>; the processors are stopped and then forgotten\<close>
  "service_stop s b =
     (let b1 = (case connectionCheckInterval s of None \<Rightarrow> b | Some tid \<Rightarrow> clearInterval tid b);
          s1 = s\<lparr>connectionCheckInterval := None\<rparr>;
          s2 = s1\<lparr>audioProcessor := None\<rparr>;
          s3 = s2\<lparr>hdProcessor := None\<rparr>;
          s4 = disconnectWebSocket s3
      in (s4\<lparr>isConnected := False, mediaStream := None\<rparr>, b1))"

definition attemptReconnection ::
  "OptimizedTranscriptionService \<Rightarrow> Browser \<Rightarrow> OptimizedTranscriptionService \<times> Browser" where
  "attemptReconnection s b =
     (if reconnectAttempts s < maxReconnectAttempts (config s)
      then (s\<lparr>reconnectAttempts := reconnectAttempts s + 1\<rparr>,
            snd (setTimeout ServiceReconnect (reconnectDelay (config s)) b))
      else service_stop s b)"

definition ws_onopen :: "int \<Rightarrow> OptimizedTranscriptionService \<Rightarrow> OptimizedTranscriptionService" where
  "ws_onopen now s =
     s\<lparr>isConnected := True, reconnectAttempts := 0, lastHeartbeatTime := now,
       connectionStateCalls := connectionStateCalls s @ [True]\<rparr>"

definition ws_onclose ::
  "OptimizedTranscriptionService \<Rightarrow> Browser \<Rightarrow> OptimizedTranscriptionService \<times> Browser" where
  "ws_onclose s b =
     attemptReconnection
       (s\<lparr>isConnected := False, connectionStateCalls := connectionStateCalls s @ [False]\<rparr>) b"

subsection \<open>Inbound results\<close>

definition truthy_bool :: "bool option \<Rightarrow> bool" where
  \<comment> \<open>truthiness of a boolean field that may be absent\<close>
  "truthy_bool v = (case v of Some True \<Rightarrow> True | _ \<Rightarrow> False)"

definition handleTranscriptionResults ::
  "results_data \<Rightarrow> int \<Rightarrow> OptimizedTranscriptionService \<Rightarrow> OptimizedTranscriptionService" where
  \<comment> \<open>a missing \<open>channel\<close> raises a TypeError, which the \<open>catch\<close> swallows;
      \<open>x || d\<close> takes \<open>d\<close> for a missing, zero or empty \<open>x\<close>\<close>
  "handleTranscriptionResults data now s =
     (case channel data of
        None \<Rightarrow> s
      | Some ch \<Rightarrow>
          (case alternatives ch of
             None \<Rightarrow> s
           | Some [] \<Rightarrow> s
           | Some (result # _) \<Rightarrow>
               s\<lparr>transcriptionCalls := transcriptionCalls s @
                   [\<lparr>res_text = transcript result,
                     res_confidence =
                       (case alt_confidence result of
                          None \<Rightarrow> Some 0.85
                        | Some c \<Rightarrow> if c = 0 then Some 0.85 else Some c),
                     isFinal = (\<not> truthy_bool (is_final data)),
                     res_timestamp = now,
                     res_duration = (case msg_duration data of None \<Rightarrow> 0 | Some d \<Rightarrow> d),
                     res_language =
                       (case msg_language data of
                          None \<Rightarrow> cfg_language (config s)
                        | Some l \<Rightarrow> if l = [] then cfg_language (config s) else l),
                     res_words = alt_words result\<rparr>]\<rparr>))"

definition handleWebSocketMessage ::
  "message \<Rightarrow> int \<Rightarrow> OptimizedTranscriptionService \<Rightarrow> OptimizedTranscriptionService" where
  "handleWebSocketMessage msg now s =
     (case msg of
        Results data \<Rightarrow> handleTranscriptionResults data now s
      | _ \<Rightarrow> s)"

subsection \<open>The connection promise\<close>

text \<open>
  \<open>connectWebSocket\<close> returns a promise. Its outcome is the environment's: the socket
  opens at some time (\<open>onopen\<close> runs and resolves the promise with true), nothing
  happens for ten seconds (the timeout callback resolves it with false, unless
  \<open>isConnected\<close> is set, when nothing ever resolves it), or the constructor throws
  (resolved with false, no socket assigned, no timer set).
\<close>

datatype connect_outcome = Opens int | TimesOut | ConstructorThrows

definition connectWebSocket ::
  "connect_outcome \<Rightarrow> OptimizedTranscriptionService \<Rightarrow> Browser
     \<Rightarrow> bool option \<times> OptimizedTranscriptionService \<times> Browser" where
  "connectWebSocket outcome s b =
     (case outcome of
        ConstructorThrows \<Rightarrow> (Some False, s, b)
      | _ \<Rightarrow>
          (let ws = \<lparr>ws_id = nextSocketId b, ws_url = cfg_apiUrl (config s),
                     ws_params = connection_params (config s),
                     ws_protocols = [''token'', cfg_apiKey (config s)],
                     readyState = CONNECTING, sent = []\<rparr>;
               s1 = s\<lparr>websocket := Some ws\<rparr>;
               (tid, b1) = setTimeout ConnectTimeoutCheck 10000
                             (b\<lparr>nextSocketId := nextSocketId b + 1\<rparr>)
           in case outcome of
                Opens now \<Rightarrow>
                  (Some True, ws_onopen now (s1\<lparr>websocket := Some (ws\<lparr>readyState := OPEN\<rparr>)\<rparr>), b1)
              | _ \<Rightarrow>
                  (if \<not> isConnected s1 then Some False else None, s1,
                   b1\<lparr>activeTimers := filter (\<lambda>u. timer_id u \<noteq> tid) (activeTimers b1)\<rparr>)))"

definition initializeProcessor ::
  "processor_env \<Rightarrow> MediaStream option \<Rightarrow> OptimizedTranscriptionService
     \<Rightarrow> bool \<times> OptimizedTranscriptionService" where
  \<comment> \<open>the processor's callback is \<open>processor_callback\<close> below\<close>
  "initializeProcessor penv stream s =
     (let (started, p) =
            processor_start penv stream
              (new_RealtimeTranscriptionProcessor
                 (initializeProcessor_config (cfg_sampleRate (config s))))
      in (started, s\<lparr>audioProcessor := Some p\<rparr>))"

definition startConnectionMonitoring ::
  "OptimizedTranscriptionService \<Rightarrow> Browser \<Rightarrow> OptimizedTranscriptionService \<times> Browser" where
  "startConnectionMonitoring s b =
     (let (tid, b1) = setInterval ConnectionCheck 10000 b
      in (s\<lparr>connectionCheckInterval := Some tid\<rparr>, b1))"

definition service_reconnect ::
  "connect_outcome \<Rightarrow> processor_env \<Rightarrow> OptimizedTranscriptionService \<Rightarrow> Browser
     \<Rightarrow> OptimizedTranscriptionService \<times> Browser" where
  \<comment> \<open>\<open>reconnect()\<close>; after a promise that never settles nothing more runs\<close>
  "service_reconnect outcome penv s b =
     (let s1 = disconnectWebSocket s;
          (resolved, s2, b2) = connectWebSocket outcome s1 b
      in case resolved of
           None \<Rightarrow> (s2, b2)
         | Some _ \<Rightarrow>
             (case (mediaStream s2, audioProcessor s2) of
                (Some stream, Some p) \<Rightarrow>
                  (s2\<lparr>audioProcessor := Some (snd (processor_start penv (Some stream) p))\<rparr>, b2)
              | _ \<Rightarrow> (s2, b2)))"

subsection \<open>Heartbeat and audio\<close>

definition keepAlive :: frame where
  \<open>keepAlive = Text (''{'' @ [CHR 0x22] @ ''type'' @ [CHR 0x22] @ '':'' @ [CHR 0x22]
                     @ ''KeepAlive'' @ [CHR 0x22] @ ''}'')\<close>

definition send_heartbeat ::
  "OptimizedTranscriptionService \<Rightarrow> js_error + OptimizedTranscriptionService" where
  \<comment> \<open>the KeepAlive of the connection check; an exception of \<open>send\<close> is not caught\<close>
  "send_heartbeat s =
     (case websocket s of
        None \<Rightarrow> Inr s
      | Some ws \<Rightarrow>
          if readyState ws = OPEN
          then (case ws_send keepAlive ws of
                  Inl e \<Rightarrow> Inl e
                | Inr ws' \<Rightarrow> Inr (s\<lparr>websocket := Some ws'\<rparr>))
          else Inr s)"

definition connection_check ::
  "int \<Rightarrow> connect_outcome \<Rightarrow> processor_env \<Rightarrow> OptimizedTranscriptionService \<Rightarrow> Browser
     \<Rightarrow> OptimizedTranscriptionService \<times> Browser" where
  \<comment> \<open>the callback of the interval of \<open>startConnectionMonitoring\<close>; an exception ends
      it\<close>
  "connection_check now outcome penv s b =
     (if isConnected s then
        (case send_heartbeat s of
           Inl e \<Rightarrow> (s, b)
         | Inr s1 \<Rightarrow>
             (let timeSinceLastHeartbeat = now - lastHeartbeatTime s1
              in if timeSinceLastHeartbeat > 30000 then service_reconnect outcome penv s1 b
                 else (s1, b)))
      else (s, b))"

definition sendAudioData ::
  "(frame \<Rightarrow> WebSocket \<Rightarrow> js_error + WebSocket) \<Rightarrow> 8 word list
     \<Rightarrow> OptimizedTranscriptionService \<Rightarrow> js_error + OptimizedTranscriptionService" where
  \<comment> \<open>\<open>send\<close> is the socket's send method, which may throw\<close>
  "sendAudioData send audioData s =
     (case websocket s of
        None \<Rightarrow> Inr s
      | Some ws \<Rightarrow>
          if isConnected s \<and> readyState ws = OPEN
          then (case send (Binary audioData) ws of
                  Inl error \<Rightarrow> Inr s
                | Inr ws' \<Rightarrow> Inr (s\<lparr>websocket := Some ws'\<rparr>))
          else Inr s)"

subsection \<open>\<open>start\<close>\<close>

text \<open>
  \<open>service_env\<close> says what the awaited operations of \<open>start\<close> yield: whether the
  high-definition chain initialises and the stream it then produces, the outcome of the
  connection, and the environment of the processor's \<open>start\<close>. A stream that fails
  validation makes \<open>start\<close> throw into its own \<open>catch\<close>, which stops the service
  and returns false.
\<close>

record service_env =
  hdInitialized :: bool
  hdStream :: MediaStream
  connect :: connect_outcome
  procEnv :: processor_env

definition applyHDProcessing ::
  "service_env \<Rightarrow> MediaStream \<Rightarrow> OptimizedTranscriptionService
     \<Rightarrow> MediaStream \<times> OptimizedTranscriptionService" where
  "applyHDProcessing env stream s =
     (if hdInitialized env
      then (hdStream env, s\<lparr>hdProcessor := Some \<lparr>hd_audioContext = Some AudioContext\<rparr>\<rparr>)
      else (stream, s\<lparr>hdProcessor := Some \<lparr>hd_audioContext = None\<rparr>\<rparr>))"

definition service_start ::
  "service_env \<Rightarrow> MediaStream option \<Rightarrow> OptimizedTranscriptionService \<Rightarrow> Browser
     \<Rightarrow> bool option \<times> OptimizedTranscriptionService \<times> Browser" where
  "service_start env stream s b =
     (case (if validateAudioStream stream then stream else None) of
        None \<Rightarrow> (let (s', b') = service_stop s b in (Some False, s', b'))
      | Some str \<Rightarrow>
          (let s1 = s\<lparr>mediaStream := Some str\<rparr>;
               (processedStream, s2) =
                 (if cfg_enableHD (config s1) then applyHDProcessing env str s1 else (str, s1));
               (connected, s3, b3) = connectWebSocket (connect env) s2 b
           in case connected of
                None \<Rightarrow> (None, s3, b3)
              | Some False \<Rightarrow> (let (s', b') = service_stop s3 b3 in (Some False, s', b'))
              | Some True \<Rightarrow>
                  (let (processorStarted, s4) =
                         (if cfg_enableRealtime (config s3)
                          then initializeProcessor (procEnv env) (Some processedStream) s3
                          else (True, s3))
                   in if \<not> processorStarted
                      then (let (s', b') = service_stop s4 b3 in (Some False, s', b'))
                      else (let (s5, b5) = startConnectionMonitoring s4 b3
                            in (Some True, s5, b5)))))"

subsection \<open>Events delivered to a running service\<close>

text \<open>
  The event loop hands the service one event at a time: the open or close event of the
  socket with a given id, an inbound message, a timer that fires (with the outcomes of
  the operations its callback awaits), or a frame from the audio worklet. A timer that
  was cleared does not fire. A socket event updates \<open>readyState\<close> first, when the
  socket is still the service's current one.
\<close>

datatype event =
    SocketOpens nat int
  | SocketCloses nat
  | SocketMessage message int
  | TimerFires nat int connect_outcome processor_env
  | AudioFrame "real list" int string "nat \<Rightarrow> real"

definition socket_state :: "nat \<Rightarrow> ReadyState \<Rightarrow> OptimizedTranscriptionService
     \<Rightarrow> OptimizedTranscriptionService" where
  "socket_state sid st s =
     (case websocket s of
        None \<Rightarrow> s
      | Some ws \<Rightarrow> if ws_id ws = sid then s\<lparr>websocket := Some (ws\<lparr>readyState := st\<rparr>)\<rparr> else s)"

text \<open>
  \<open>processor_callback\<close> is the closure \<open>initializeProcessor\<close> hands to the processor:
  it wraps a text and a confidence into a final result for the service's own callback.
\<close>

definition processor_callback ::
  "int \<Rightarrow> OptimizedTranscriptionService \<Rightarrow> string \<times> real option \<Rightarrow> TranscriptionResult" where
  "processor_callback now s tc =
     \<lparr>res_text = fst tc, res_confidence = snd tc, isFinal = True, res_timestamp = now,
      res_duration = 0, res_language = cfg_language (config s), res_words = None\<rparr>"

definition audio_frame ::
  "real list \<Rightarrow> int \<Rightarrow> string \<Rightarrow> (nat \<Rightarrow> real) \<Rightarrow> OptimizedTranscriptionService
     \<Rightarrow> OptimizedTranscriptionService" where
  "audio_frame audioData now rid rnd s =
     (case audioProcessor s of
        None \<Rightarrow> s
      | Some p \<Rightarrow>
          (let (p', emitted) = processAudioFrame audioData now rid rnd p
           in s\<lparr>audioProcessor := Some p',
                transcriptionCalls :=
                  transcriptionCalls s @ map (processor_callback now s) emitted\<rparr>))"

definition service_step ::
  "event \<Rightarrow> OptimizedTranscriptionService \<times> Browser
     \<Rightarrow> OptimizedTranscriptionService \<times> Browser" where
  "service_step e sb =
     (let (s, b) = sb in
      case e of
        SocketOpens sid now \<Rightarrow> (ws_onopen now (socket_state sid OPEN s), b)
      | SocketCloses sid \<Rightarrow> ws_onclose (socket_state sid CLOSED s) b
      | SocketMessage msg now \<Rightarrow> (handleWebSocketMessage msg now s, b)
      | TimerFires tid now outcome penv \<Rightarrow>
          (case find (\<lambda>t. timer_id t = tid) (activeTimers b) of
             None \<Rightarrow> (s, b)
           | Some t \<Rightarrow>
               (let b1 = timer_fired t b in
                case callback t of
                  ServiceReconnect \<Rightarrow> service_reconnect outcome penv s b1
                | ConnectionCheck \<Rightarrow> connection_check now outcome penv s b1
                | _ \<Rightarrow> (s, b1)))
      | AudioFrame audioData now rid rnd \<Rightarrow> (audio_frame audioData now rid rnd s, b))"

fun service_run ::
  "event list \<Rightarrow> OptimizedTranscriptionService \<times> Browser
     \<Rightarrow> OptimizedTranscriptionService \<times> Browser" where
  "service_run [] sb = sb"
| "service_run (e # es) sb = service_run es (service_step e sb)"

subsection \<open>Concrete services and inputs\<close>

definition default_service_config :: "string \<Rightarrow> TranscriptionServiceConfig" where
  "default_service_config key =
     \<lparr>cfg_apiKey = key, cfg_apiUrl = ''wss://api.deepgram.com/v1/listen'',
      cfg_language = ''en-US'', cfg_model = ''nova-2'', cfg_enableHD = True,
      cfg_enableRealtime = True, cfg_sampleRate = 16000, maxReconnectAttempts = 5,
      reconnectDelay = 3000\<rparr>"

definition good_env :: service_env where
  "good_env =
     \<lparr>hdInitialized = True, hdStream = [live_audio_track], connect = Opens 0,
      procEnv = \<lparr>contextCreated = True, workletInitialized = True, processingStarted = True,
                 startTime = 0\<rparr>\<rparr>"

definition started_service :: "OptimizedTranscriptionService \<times> Browser" where
  "started_service =
     snd (service_start good_env (Some [live_audio_track])
            (new_OptimizedTranscriptionService (default_service_config ''key'')) new_Browser)"

definition is_open :: "event \<Rightarrow> bool" where
  \<comment> \<open>the events in which \<open>onopen\<close> runs\<close>
  "is_open e =
     (case e of
        SocketOpens sid now \<Rightarrow> True
      | TimerFires tid now (Opens t) penv \<Rightarrow> True
      | _ \<Rightarrow> False)"

definition reconnects_scheduled :: "Browser \<Rightarrow> nat" where
  \<comment> \<open>how many reconnections \<open>attemptReconnection\<close> has scheduled so far\<close>
  "reconnects_scheduled b = length (filter (\<lambda>t. callback t = ServiceReconnect) (scheduled b))"

definition final_results :: results_data where
  "final_results =
     \<lparr>channel = Some \<lparr>alternatives =
         Some [\<lparr>transcript = ''hello world'', alt_confidence = Some 0.9, alt_words = None\<rparr>]\<rparr>,
      is_final = Some True, msg_duration = Some 1.5, msg_language = None\<rparr>"

definition interim_results :: results_data where
  "interim_results = final_results\<lparr>is_final := Some False\<rparr>"

definition failing_send :: "frame \<Rightarrow> WebSocket \<Rightarrow> js_error + WebSocket" where
  "failing_send d ws = Inl NetworkError"

definition fresh_service :: OptimizedTranscriptionService where
  "fresh_service = new_OptimizedTranscriptionService (default_service_config ''key'')"

definition attempt_budget :: "OptimizedTranscriptionService \<times> Browser \<Rightarrow> int" where
  "attempt_budget sb = int (reconnects_scheduled (snd sb)) - reconnectAttempts (fst sb)"

definition six_closes :: "event list" where
  "six_closes = [SocketCloses 1, SocketCloses 2, SocketCloses 3, SocketCloses 4,
                 SocketCloses 5, SocketCloses 6]"

definition capped_service :: OptimizedTranscriptionService where
  "capped_service = fresh_service\<lparr>reconnectAttempts := 5\<rparr>"

definition reconnect_env :: processor_env where
  "reconnect_env = \<lparr>contextCreated = True, workletInitialized = True,
                     processingStarted = True, startTime = 40100\<rparr>"

definition heartbeat_ticks :: "event list" where
  "heartbeat_ticks =
     [TimerFires 2 10000 TimesOut reconnect_env, TimerFires 2 20000 TimesOut reconnect_env,
      TimerFires 2 30000 TimesOut reconnect_env, SocketMessage (Results final_results) 35000]"

definition speech_frames :: "event list" where
  "speech_frames =
     [AudioFrame (replicate 4096 0.001) 500 ''a'' (fixed_random 0.5),
      AudioFrame (replicate 4096 0.5) 1000 ''b'' (fixed_random 0.5)]"

section \<open>EnhancedTranscriptionManager\<close>

text \<open>
  The manager's \<open>audioProcessor\<close> and \<open>hdProcessor\<close> fields are never assigned by the
  source; they are kept because \<open>stop\<close> resets them. \<open>manager_env\<close> says what
  \<open>createScreenShareStream\<close> and \<open>createStableAudioStream\<close> yield (both return null
  on failure), whether the audio contexts of the validator and the analyzer can be
  created, and the environment of the service's \<open>start\<close>. A stream monitor is the id of
  its interval, which is what the closure returned by \<open>monitorStreamHealth\<close> clears.
\<close>

record EnhancedTranscriptionOptions =
  opt_enableHD :: bool
  opt_enableRealtime :: bool
  enableQualityAnalysis :: bool
  enableAccuracyValidation :: bool
  opt_sampleRate :: int
  opt_language :: string
  opt_model :: string
  opt_apiKey :: string
  opt_apiUrl :: string

record AudioQualityAnalyzer =
  qa_audioContext :: "AudioContext option"

record TranscriptionAccuracyValidator =
  av_audioContext :: "AudioContext option"

record EnhancedTranscriptionManager =
  transcriptionService :: "OptimizedTranscriptionService option"
  mgr_audioProcessor :: "RealtimeTranscriptionProcessor option"
  mgr_hdProcessor :: "HighDefinitionAudioProcessor option"
  qualityAnalyzer :: "AudioQualityAnalyzer option"
  accuracyValidator :: "TranscriptionAccuracyValidator option"
  streamMonitor :: "nat option"
  mgr_mediaStream :: "MediaStream option"
  options :: EnhancedTranscriptionOptions
  isActive :: bool
  errorCalls :: "string list"

definition default_options :: "string \<Rightarrow> EnhancedTranscriptionOptions" where
  "default_options key =
     \<lparr>opt_enableHD = True, opt_enableRealtime = True, enableQualityAnalysis = True,
      enableAccuracyValidation = False, opt_sampleRate = 16000, opt_language = ''en-US'',
      opt_model = ''nova-2'', opt_apiKey = key,
      opt_apiUrl = ''wss://api.deepgram.com/v1/listen''\<rparr>"

definition new_EnhancedTranscriptionManager ::
  "EnhancedTranscriptionOptions \<Rightarrow> EnhancedTranscriptionManager" where
  "new_EnhancedTranscriptionManager opts =
     \<lparr>transcriptionService = None, mgr_audioProcessor = None, mgr_hdProcessor = None,
      qualityAnalyzer = None, accuracyValidator = None, streamMonitor = None,
      mgr_mediaStream = None, options = opts, isActive = False, errorCalls = []\<rparr>"

record manager_env =
  systemStream :: "MediaStream option"
  micStream :: "MediaStream option"
  validatorContextCreated :: bool
  analyzerContextCreated :: bool
  serviceEnv :: service_env

definition getAudioStream :: "manager_env \<Rightarrow> MediaStream option" where
  "getAudioStream env =
     (case systemStream env of
        Some s \<Rightarrow> Some s
      | None \<Rightarrow> (case micStream env of Some s \<Rightarrow> Some s | None \<Rightarrow> None))"

definition service_config_of :: "EnhancedTranscriptionOptions \<Rightarrow> TranscriptionServiceConfig" where
  \<comment> \<open>the configuration \<open>initialize\<close> passes, merged over the service's defaults\<close>
  "service_config_of opts =
     \<lparr>cfg_apiKey = opt_apiKey opts, cfg_apiUrl = opt_apiUrl opts,
      cfg_language = opt_language opts, cfg_model = opt_model opts,
      cfg_enableHD = opt_enableHD opts, cfg_enableRealtime = opt_enableRealtime opts,
      cfg_sampleRate = opt_sampleRate opts, maxReconnectAttempts = 5, reconnectDelay = 3000\<rparr>"

definition manager_stop ::
  "EnhancedTranscriptionManager \<Rightarrow> Browser \<Rightarrow> EnhancedTranscriptionManager \<times> Browser" where
  "manager_stop m b =
     (let m1 = m\<lparr>isActive := False\<rparr>;
          b1 = (case streamMonitor m1 of None \<Rightarrow> b | Some tid \<Rightarrow> clearInterval tid b);
          m2 = m1\<lparr>streamMonitor := None\<rparr>;
          b2 = (case transcriptionService m2 of
                  None \<Rightarrow> b1
                | Some service \<Rightarrow> snd (service_stop service b1));
          m3 = m2\<lparr>transcriptionService := None\<rparr>;
          m4 = m3\<lparr>mgr_audioProcessor := None\<rparr>;
          m5 = m4\<lparr>mgr_hdProcessor := None\<rparr>;
          m6 = m5\<lparr>qualityAnalyzer := None\<rparr>;
          m7 = m6\<lparr>accuracyValidator := None\<rparr>
      in (m7\<lparr>mgr_mediaStream := None\<rparr>, b2))"

definition manager_cleanup ::
  "EnhancedTranscriptionManager \<Rightarrow> Browser \<Rightarrow> EnhancedTranscriptionManager \<times> Browser" where
  "manager_cleanup m b = manager_stop m b"

definition monitorStreamHealth :: "Browser \<Rightarrow> nat \<times> Browser" where
  "monitorStreamHealth b = setInterval CheckHealth 10000 b"

definition startMetricsCollection :: "Browser \<Rightarrow> Browser" where
  \<comment> \<open>the id \<open>setInterval\<close> returns is dropped\<close>
  "startMetricsCollection b = snd (setInterval CollectMetrics 1000 b)"

definition initialize ::
  "manager_env \<Rightarrow> MediaStream option \<Rightarrow> EnhancedTranscriptionManager \<Rightarrow> Browser
     \<Rightarrow> bool option \<times> EnhancedTranscriptionManager \<times> Browser" where
  \<comment> \<open>every \<open>throw\<close> lands in the \<open>catch\<close>: log, \<open>cleanup()\<close>, return false\<close>
  "initialize env audioSource m b =
     (case (case audioSource of Some a \<Rightarrow> Some a | None \<Rightarrow> getAudioStream env) of
        None \<Rightarrow> (let (m', b') = manager_cleanup m b in (Some False, m', b'))
      | Some src \<Rightarrow>
          (let m1 = m\<lparr>mgr_mediaStream := Some src\<rparr>;
               m2 = (if enableAccuracyValidation (options m1)
                     then m1\<lparr>accuracyValidator :=
                            Some \<lparr>av_audioContext =
                              (if validatorContextCreated env then Some AudioContext else None)\<rparr>\<rparr>
                     else m1);
               m3 = (if enableQualityAnalysis (options m2)
                     then m2\<lparr>qualityAnalyzer :=
                            Some \<lparr>qa_audioContext =
                              (if analyzerContextCreated env then Some AudioContext else None)\<rparr>\<rparr>
                     else m2);
               service = new_OptimizedTranscriptionService (service_config_of (options m3));
               (serviceStarted, service', b1) = service_start (serviceEnv env) (Some src) service b;
               m4 = m3\<lparr>transcriptionService := Some service'\<rparr>
           in case serviceStarted of
                None \<Rightarrow> (None, m4, b1)
              | Some False \<Rightarrow> (let (m', b') = manager_cleanup m4 b1 in (Some False, m', b'))
              | Some True \<Rightarrow>
                  (let (tid, b2) = monitorStreamHealth b1;
                       m5 = m4\<lparr>streamMonitor := Some tid, isActive := True\<rparr>
                   in (Some True, m5, startMetricsCollection b2))))"

subsection \<open>Concrete managers and environments\<close>

definition good_manager_env :: manager_env where
  "good_manager_env =
     \<lparr>systemStream = None, micStream = Some [live_audio_track],
      validatorContextCreated = True, analyzerContextCreated = True, serviceEnv = good_env\<rparr>"

definition no_stream_env :: manager_env where
  "no_stream_env = good_manager_env\<lparr>micStream := None\<rparr>"

definition timeout_env :: manager_env where
  "timeout_env = good_manager_env\<lparr>serviceEnv := good_env\<lparr>connect := TimesOut\<rparr>\<rparr>"

definition fresh_manager :: EnhancedTranscriptionManager where
  "fresh_manager = new_EnhancedTranscriptionManager (default_options ''key'')"

definition orphan_events :: "event list" where
  \<comment> \<open>the close event of the socket that \<open>stop\<close> closed, then the reconnection timer,
      whose socket opens\<close>
  "orphan_events = [SocketCloses 1, TimerFires 2 13000 (Opens 13100) reconnect_env]"

section \<open>Unfolding rules for concrete runs\<close>

lemmas service_defs =
  service_start_def good_env_def validateAudioStream_def
  getAudioTracks_def live_audio_track_def new_OptimizedTranscriptionService_def
  default_service_config_def applyHDProcessing_def connectWebSocket_def setTimeout_def
  add_timer_def new_Browser_def ws_onopen_def initializeProcessor_def processor_start_def
  startConnectionMonitoring_def setInterval_def Let_def split_beta
  new_RealtimeTranscriptionProcessor_def initializeProcessor_config_def
  service_step_def connection_check_def send_heartbeat_def ws_send_def timer_fired_def
  service_reconnect_def disconnectWebSocket_def handleWebSocketMessage_def
  handleTranscriptionResults_def final_results_def truthy_bool_def processor_cleanup_def

lemmas manager_defs =
  initialize_def manager_cleanup_def manager_stop_def getAudioStream_def
  good_manager_env_def no_stream_env_def timeout_env_def fresh_manager_def
  new_EnhancedTranscriptionManager_def default_options_def service_config_of_def
  monitorStreamHealth_def startMetricsCollection_def clearInterval_def service_stop_def

section \<open>Properties of the voice activity detector\<close>

lemma calculateEnergy_single: "calculateEnergy [x] = Some \<bar>x\<bar>"
  by (simp add: calculateEnergy_def)

lemma detect_history:
  "snd (detectVoiceActivity f h) =
     (if length h \<ge> historySize then tl (h @ [calculateEnergy f])
      else h @ [calculateEnergy f])"
  by (simp add: detectVoiceActivity_def Let_def)

lemma vad_calls_constant:
  "length h \<le> historySize \<Longrightarrow> \<forall>f\<in>set fs. calculateEnergy f = e \<Longrightarrow>
   vad_calls fs h = drop (length h + length fs - historySize) (h @ replicate (length fs) e)"
proof (induction fs arbitrary: h)
  case Nil
  then show ?case by simp
next
  case (Cons f fs)
  let ?h' = "snd (detectVoiceActivity f h)"
  have e: "calculateEnergy f = e" using Cons.prems by simp
  show ?case
  proof (cases "length h < historySize")
    case True
    then have h': "?h' = h @ [e]" by (simp add: detect_history e)
    have "vad_calls fs ?h' =
            drop (length ?h' + length fs - historySize) (?h' @ replicate (length fs) e)"
      using Cons.IH [of ?h'] Cons.prems True h' by simp
    then show ?thesis by (simp add: h')
  next
    case False
    then have len: "length h = historySize" using Cons.prems by simp
    then have ne: "h \<noteq> []" by (auto simp: historySize_def)
    have h': "?h' = tl h @ [e]" using len ne by (simp add: detect_history e)
    have l': "length ?h' = historySize" unfolding h' using len ne by (cases h) simp_all
    have A: "vad_calls fs ?h' =
               drop (length ?h' + length fs - historySize) (?h' @ replicate (length fs) e)"
      using Cons.IH [of ?h'] Cons.prems l' by simp
    have B: "length ?h' + length fs - historySize = length fs" using l' by simp
    have C: "?h' @ replicate (length fs) e = drop 1 (h @ e # replicate (length fs) e)"
      unfolding h' using ne by (cases h) simp_all
    have D: "vad_calls (f # fs) h = drop (length fs + 1) (h @ e # replicate (length fs) e)"
      by (simp only: vad_calls.simps A B C drop_drop)
    have E: "length h + Suc (length fs) - historySize = length fs + 1" using len by simp
    show ?thesis by (simp only: D E length_Cons replicate_Suc)
  qed
qed

lemma vad_calls_ten:
  assumes "length h \<le> historySize" "length fs = 10" "\<forall>f\<in>set fs. calculateEnergy f = e"
  shows "vad_calls fs h = replicate 10 e"
  using vad_calls_constant [OF assms(1) assms(3)] assms(2)
  by (simp add: historySize_def)

lemma detect_loud:
  "calculateEnergy loud = Some 0.5 \<Longrightarrow>
   detectVoiceActivity loud (replicate 10 (Some 0.001)) =
     ((True, Some 1), replicate 9 (Some 0.001) @ [Some 0.5])"
  by (simp add: detectVoiceActivity_def Let_def historySize_def numeral_eq_Suc
      calculateBackgroundNoise_def vad_isSpeech_def vad_confidence_def)

lemma math_min_Min: "math_min m xs = Min (set (m # xs))"
proof (induction xs arbitrary: m)
  case Nil
  then show ?case by simp
next
  case (Cons x xs)
  have "math_min m (x # xs) = Min (insert (min m x) (set xs))"
    using Cons.IH [of "min m x"] by simp
  also have "\<dots> = Min (insert m (insert x (set xs)))"
    by (cases "set xs = {}") (simp_all add: min.assoc)
  finally show ?case by simp
qed

lemma calculateBackgroundNoise_Min:
  assumes "history \<noteq> []" "None \<notin> set history"
  shows "calculateBackgroundNoise history = Some (Min (set (map the history)))"
  using assms by (cases history) (simp_all add: calculateBackgroundNoise_def math_min_Min)

lemma last_ten:
  assumes "length h \<le> historySize"
  shows "(if length h \<ge> historySize then tl (h @ [x]) else h @ [x])
           = drop (length h + 1 - historySize) (h @ [x])"
proof (cases "length h < historySize")
  case True
  then show ?thesis by simp
next
  case False
  then have "length h = historySize" using assms by simp
  then show ?thesis by (cases h) (simp_all add: historySize_def)
qed

text \<open>
  The rule of the detector, for every frame and every history that holds at most ten
  energies, none of them NaN: the new history is the last ten energies, the frame's
  included; the noise floor is their minimum; the threshold is twice the floor; the frame
  is speech exactly when its energy is above the threshold; the confidence is the energy
  over three times the threshold, clamped to \<open>[0, 1]\<close> (a zero threshold makes the
  quotient infinite, or NaN for a zero energy).
\<close>

lemma detect_rule:
  assumes "length h \<le> historySize" "None \<notin> set h" "calculateEnergy f = Some e"
  shows "let history = drop (length h + 1 - historySize) (h @ [Some e]);
             noiseFloor = Min (set (map the history));
             threshold = 2 * noiseFloor
         in detectVoiceActivity f h =
              ((e > threshold,
                if threshold * 3 = 0
                then (if e > 0 then Some 1 else if e < 0 then Some 0 else None)
                else Some (max 0 (min 1 (e / (threshold * 3))))),
               history)
            \<and> history \<noteq> [] \<and> length history \<le> historySize \<and> None \<notin> set history
            \<and> calculateBackgroundNoise history = Some noiseFloor"
proof -
  define history where "history = drop (length h + 1 - historySize) (h @ [Some e])"
  have snd: "snd (detectVoiceActivity f h) = history"
    unfolding history_def detect_history assms(3) using last_ten [OF assms(1)] by simp
  have ne: "history \<noteq> []" using assms(1) by (simp add: history_def historySize_def)
  have len: "length history \<le> historySize" using assms(1) by (simp add: history_def)
  have nn: "None \<notin> set history"
    using assms(2) by (auto simp add: history_def dest: in_set_dropD)
  have bn: "calculateBackgroundNoise history = Some (Min (set (map the history)))"
    using calculateBackgroundNoise_Min [OF ne nn] .
  have h2: "(if historySize < length (h @ [calculateEnergy f]) then tl (h @ [calculateEnergy f])
             else h @ [calculateEnergy f]) = history"
    using snd unfolding detect_history by (simp add: less_Suc_eq_le)
  have main: "detectVoiceActivity f h =
          ((e > 2 * Min (set (map the history)),
            if 2 * Min (set (map the history)) * 3 = 0
            then (if e > 0 then Some 1 else if e < 0 then Some 0 else None)
            else Some (max 0 (min 1 (e / (2 * Min (set (map the history)) * 3))))),
           history)"
    unfolding detectVoiceActivity_def Let_def h2 bn
    by (simp add: assms(3) vad_isSpeech_def vad_confidence_def mult.commute)
  show ?thesis
    unfolding Let_def history_def [symmetric]
    using main ne len nn bn by blast
qed

text \<open>
  Claim C9. On a detector whose history holds at most ten energies, ten consecutive calls
  on frames of RMS energy 0.001 followed by a call on a frame of RMS energy 0.5 return,
  for the loud frame, \<open>isSpeech = true\<close> and a confidence above 0.7 (it is 1); the
  history then is nine times 0.001 and the loud energy, and its minimum 0.001 is the
  noise floor. This follows the rule, which holds of every call on a history without
  NaN: the history kept is the last ten energies, the noise floor is their minimum, the
  threshold twice the floor, \<open>isSpeech\<close> is \<open>energy > threshold\<close>, and the confidence
  is \<open>energy / (threshold * 3)\<close> clamped to \<open>[0, 1]\<close>.
\<close>

theorem vad_loud_frame_after_quiet:
  "(length h0 \<le> historySize \<and> length quiet = 10
      \<and> (\<forall>f\<in>set quiet. calculateEnergy f = Some 0.001)
      \<and> calculateEnergy loud = Some 0.5 \<longrightarrow>
      (case detectVoiceActivity loud (vad_calls quiet h0) of
         ((isSpeech, confidence), history) \<Rightarrow>
           isSpeech \<and> (\<exists>c. confidence = Some c \<and> c > 0.7)
           \<and> length history = 10
           \<and> calculateBackgroundNoise history = Some 0.001
           \<and> confidence = Some (max 0 (min 1 (0.5 / (2 * 0.001 * 3))))
           \<and> history = replicate 9 (Some 0.001) @ [Some 0.5]
           \<and> Min (set (map the history)) = 0.001))
   \<and> (length h \<le> historySize \<and> None \<notin> set h \<and> calculateEnergy f = Some e \<longrightarrow>
        (let history = drop (length h + 1 - historySize) (h @ [Some e]);
             noiseFloor = Min (set (map the history));
             threshold = 2 * noiseFloor
         in detectVoiceActivity f h =
              ((e > threshold,
                if threshold * 3 = 0
                then (if e > 0 then Some 1 else if e < 0 then Some 0 else None)
                else Some (max 0 (min 1 (e / (threshold * 3))))),
               history)
            \<and> history \<noteq> [] \<and> length history \<le> historySize \<and> None \<notin> set history
            \<and> calculateBackgroundNoise history = Some noiseFloor))"
proof (intro conjI impI)
  assume a: "length h0 \<le> historySize \<and> length quiet = 10
      \<and> (\<forall>f\<in>set quiet. calculateEnergy f = Some 0.001)
      \<and> calculateEnergy loud = Some 0.5"
  have H: "vad_calls quiet h0 = replicate 10 (Some 0.001)"
    using vad_calls_ten [of h0 quiet "Some 0.001"] a by simp
  have D: "detectVoiceActivity loud (vad_calls quiet h0) =
             ((True, Some 1), replicate 9 (Some 0.001) @ [Some 0.5])"
    unfolding H by (rule detect_loud) (use a in simp)
  show "case detectVoiceActivity loud (vad_calls quiet h0) of
         ((isSpeech, confidence), history) \<Rightarrow>
           isSpeech \<and> (\<exists>c. confidence = Some c \<and> c > 0.7)
           \<and> length history = 10
           \<and> calculateBackgroundNoise history = Some 0.001
           \<and> confidence = Some (max 0 (min 1 (0.5 / (2 * 0.001 * 3))))
           \<and> history = replicate 9 (Some 0.001) @ [Some 0.5]
           \<and> Min (set (map the history)) = 0.001"
    unfolding D by (simp add: calculateBackgroundNoise_def numeral_eq_Suc)
next
  assume "length h \<le> historySize \<and> None \<notin> set h \<and> calculateEnergy f = Some e"
  then show "let history = drop (length h + 1 - historySize) (h @ [Some e]);
             noiseFloor = Min (set (map the history));
             threshold = 2 * noiseFloor
         in detectVoiceActivity f h =
              ((e > threshold,
                if threshold * 3 = 0
                then (if e > 0 then Some 1 else if e < 0 then Some 0 else None)
                else Some (max 0 (min 1 (e / (threshold * 3))))),
               history)
            \<and> history \<noteq> [] \<and> length history \<le> historySize \<and> None \<notin> set history
            \<and> calculateBackgroundNoise history = Some noiseFloor"
    using detect_rule [of h f e] by blast
qed

text \<open>
  Claim C9 at ten one-sample frames of 0.001 and a loud frame of 0.5 on a new detector,
  and the rule at a quiet frame (energy 0.001 on the history 0.002, 0.001), which is not
  speech and has the confidence \<open>0.001 / 0.006\<close>.
\<close>

theorem vad_loud_frame_after_quiet_witness:
  "(case detectVoiceActivity [0.5] (vad_calls (replicate 10 [0.001]) []) of
      ((isSpeech, confidence), history) \<Rightarrow>
        isSpeech \<and> confidence = Some 1
        \<and> history = replicate 9 (Some 0.001) @ [Some 0.5]
        \<and> calculateBackgroundNoise history = Some 0.001)
   \<and> detectVoiceActivity [0.001] [Some 0.002, Some 0.001]
       = ((False, Some (1 / 6)), [Some 0.002, Some 0.001, Some 0.001])"
proof
  have h: "length ([] :: real option list) \<le> historySize \<and> length (replicate 10 [0.001 :: real]) = 10
      \<and> (\<forall>f\<in>set (replicate 10 [0.001 :: real]). calculateEnergy f = Some 0.001)
      \<and> calculateEnergy [0.5] = Some 0.5"
    by (simp add: historySize_def calculateEnergy_single)
  show "case detectVoiceActivity [0.5] (vad_calls (replicate 10 [0.001]) []) of
      ((isSpeech, confidence), history) \<Rightarrow>
        isSpeech \<and> confidence = Some 1
        \<and> history = replicate 9 (Some 0.001) @ [Some 0.5]
        \<and> calculateBackgroundNoise history = Some 0.001"
    using vad_loud_frame_after_quiet [of "[]" "replicate 10 [0.001]" "[0.5]" "[]" "[0.5]" "0.5"] h
    by (auto simp add: split_beta)
next
  show "detectVoiceActivity [0.001] [Some 0.002, Some 0.001]
       = ((False, Some (1 / 6)), [Some 0.002, Some 0.001, Some 0.001])"
    using vad_loud_frame_after_quiet
            [of "[]" "[]" "[]" "[Some 0.002, Some 0.001]" "[0.001]" "0.001"]
    by (simp add: historySize_def calculateEnergy_single Let_def)
qed

section \<open>Properties of the PCM conversion\<close>

lemma sint16: "- 32768 \<le> n \<Longrightarrow> n < 32768 \<Longrightarrow> sint (word_of_int n :: 16 word) = n"
  by (simp add: sint_sbintrunc' signed_take_bit_int_eq_self)

lemma convertSample_bound:
  assumes "\<bar>x\<bar> \<le> 0.9995" "0 \<le> r" "r < 1"
  shows "\<bar>real_of_int (sint (convertSample r x)) / 32767 - x\<bar> \<le> 0.0005 + 1 / 65534"
proof -
  define y where "y = applyDithering r x"
  define n where "n = math_round (y * 32767)"
  have clamp: "max (- 1) (min 1 x) = x" using assms(1) by auto
  have "\<bar>r - 1 / 2\<bar> \<le> 1 / 2" using assms(2,3) by linarith
  then have yx: "\<bar>y - x\<bar> \<le> 1 / 2000" by (simp add: y_def applyDithering_def)
  have x1: "\<bar>x\<bar> \<le> 1999 / 2000" using assms(1) by simp
  have y1: "\<bar>y\<bar> \<le> 1" using yx x1 by linarith
  have lo: "real_of_int n \<le> y * 32767 + 1 / 2" unfolding n_def math_round_def by linarith
  have hi: "y * 32767 + 1 / 2 < real_of_int n + 1" unfolding n_def math_round_def by linarith
  have "real_of_int n < 32768" using lo y1 by (simp add: abs_le_iff)
  then have n_hi: "n < 32768" by linarith
  have "- 32769 < real_of_int n" using hi y1 by (simp add: abs_le_iff)
  then have n_lo: "- 32768 \<le> n" by linarith
  have s: "sint (convertSample r x) = n"
    unfolding convertSample_def clamp n_def [symmetric] y_def [symmetric]
    by (rule sint16 [OF n_lo n_hi])
  define q where "q = real_of_int n / 32767"
  have q: "real_of_int n = q * 32767" by (simp add: q_def)
  have "\<bar>q - y\<bar> \<le> 1 / 65534" using lo hi unfolding q by linarith
  then have "\<bar>real_of_int n / 32767 - y\<bar> \<le> 1 / 65534" by (simp add: q_def)
  then have "\<bar>real_of_int n / 32767 - x\<bar> \<le> 1 / 2000 + 1 / 65534" using yx by linarith
  then show ?thesis unfolding s by simp
qed

lemma length_convertToPCM: "length (convertToPCM rnd xs) = length xs"
  by (simp add: convertToPCM_def)

text \<open>
  Claim C7, as stated, fails: a sample \<open>x = 0\<close> with \<open>Math.random() = 0\<close> is dithered
  by \<open>-0.0005\<close> and quantised to \<open>-16\<close>, sixteen steps away from \<open>x\<close>. At the
  edge, \<open>x = 1\<close> with \<open>Math.random() = 0.9\<close> is dithered to \<open>1.0004\<close> after the
  clamp, rounded to \<open>32780\<close> and stored in the \<open>Int16Array\<close> as \<open>-32756\<close>.
\<close>

theorem pcm_roundtrip_counterexample:
  "sint (convertToPCM (fixed_random 0) [0] ! 0) = - 16
   \<and> \<not> \<bar>real_of_int (sint (convertToPCM (fixed_random 0) [0] ! 0)) / 32767 - 0\<bar> \<le> 1 / 32768
   \<and> sint (convertToPCM (fixed_random 0.9) [1] ! 0) = - 32756
   \<and> \<not> \<bar>real_of_int (sint (convertToPCM (fixed_random 0.9) [1] ! 0)) / 32767 - 1\<bar>
         \<le> 1 / 32768"
  by (simp add: convertToPCM_def convertSample_def applyDithering_def math_round_def
      fixed_random_def)

text \<open>
  Claim C7, amended. The dither of \<open>applyDithering\<close> has amplitude 0.0005, so for every
  sample \<open>x\<close> with \<open>|x| \<le> 0.9995\<close> and every value \<open>r\<close> in \<open>[0, 1)\<close> of the random
  source the produced integer \<open>p\<close> satisfies \<open>|p / 32767 - x| \<le> 0.0005 + 1 / 65534\<close>.
\<close>

theorem pcm_roundtrip_amended:
  assumes "i < length xs"
    and "\<bar>xs ! i\<bar> \<le> 0.9995"
    and "0 \<le> rnd i" and "rnd i < 1"
  shows "\<bar>real_of_int (sint (convertToPCM rnd xs ! i)) / 32767 - xs ! i\<bar>
           \<le> 0.0005 + 1 / 65534"
proof -
  have "convertToPCM rnd xs ! i = convertSample (rnd i) (xs ! i)"
    using assms(1) by (simp add: convertToPCM_def)
  then show ?thesis
    using convertSample_bound [OF assms(2) assms(3) assms(4)] by (simp only:)
qed

text \<open>
  The amended claim at the sample 0.25 with \<open>Math.random() = 0.75\<close>.
\<close>

theorem pcm_roundtrip_amended_witness:
  "\<bar>real_of_int (sint (convertToPCM (fixed_random 0.75) [0.25] ! 0)) / 32767 - [0.25] ! 0\<bar>
     \<le> 0.0005 + 1 / 65534"
  using pcm_roundtrip_amended [of 0 "[0.25]" "fixed_random 0.75"]
  by (simp add: fixed_random_def)

section \<open>Properties of the chunker\<close>

lemma processAudioFrame_cut:
  assumes "isProcessing p" "currentTime - lastProcessTime p \<ge> chunkDuration (proc_config p)"
  shows "chunkQueue (fst (processAudioFrame audioData currentTime rid rnd p)) =
           filter (\<lambda>chunk. currentTime - chunk_timestamp chunk < 30000)
             (chunkQueue p @
               [make_chunk currentTime rid rnd (proc_config p) (concat (audioBuffer p @ [audioData]))
                  (fst (detectVoiceActivity (concat (audioBuffer p @ [audioData])) (energyHistory p)))])"
  using assms
  by (simp add: processAudioFrame_def processAudioChunk_def Let_def cleanupOldChunks_def
      handleSilencePeriod_def split: prod.splits)

lemma processAudioFrame_nocut:
  assumes "\<not> (isProcessing p \<and> currentTime - lastProcessTime p \<ge> chunkDuration (proc_config p))"
  shows "chunkQueue (fst (processAudioFrame audioData currentTime rid rnd p)) = chunkQueue p"
  using assms
  by (auto simp add: processAudioFrame_def Let_def)

lemma started_processor_simps:
  "isProcessing (started_processor rate)"
  "lastProcessTime (started_processor rate) = 0"
  "audioBuffer (started_processor rate) = []"
  "chunkQueue (started_processor rate) = []"
  "proc_config (started_processor rate) = initializeProcessor_config rate"
  by (simp_all add: started_processor_def processor_start_def validateAudioStream_def
      getAudioTracks_def live_audio_track_def new_RealtimeTranscriptionProcessor_def Let_def)

lemma processAudioFrame_buffer:
  "isProcessing p \<Longrightarrow> \<not> currentTime - lastProcessTime p \<ge> chunkDuration (proc_config p) \<Longrightarrow>
   fst (processAudioFrame audioData currentTime rid rnd p) = p\<lparr>audioBuffer := audioBuffer p @ [audioData]\<rparr>"
  by (simp add: processAudioFrame_def Let_def)

lemma chunk_duration_make_chunk:
  "chunk_duration (make_chunk now rid rnd cfg combinedData vadResult) =
     (if sampleRate cfg = 0 then None
      else Some (real (length combinedData) / real_of_int (sampleRate cfg) * 1000))"
  "chunk_timestamp (make_chunk now rid rnd cfg combinedData vadResult) = now"
  by (simp_all add: make_chunk_def)

text \<open>
  Claim C8, as stated, fails. With the configuration of \<open>initializeProcessor\<close>
  (chunks of 500 ms, overlap 100 ms, minimal speech 200 ms), three worklet frames of 4096
  samples that reach a 16 kHz processor 100, 300 and 600 ms after its start are cut as
  one chunk of 768 ms, above the upper bound; one such frame reaching a 48 kHz processor
  after 500 ms is cut as a chunk of 85.3 ms, below the lower bound.
\<close>

theorem chunk_duration_counterexample:
  "map chunk_duration
     (chunkQueue (fst (processAudioFrames
        [(replicate 4096 0, 100, ''a'', fixed_random 0.5),
         (replicate 4096 0, 300, ''b'', fixed_random 0.5),
         (replicate 4096 0, 600, ''c'', fixed_random 0.5)]
        (started_processor 16000)))) = [Some 768]
   \<and> \<not> (768 :: real) \<le> real_of_int (chunkDuration (initializeProcessor_config 16000)
                                         + overlapDuration (initializeProcessor_config 16000))
   \<and> map chunk_duration
       (chunkQueue (fst (processAudioFrames
          [(replicate 4096 0, 500, ''a'', fixed_random 0.5)]
          (started_processor 48000)))) = [Some (256 / 3)]
   \<and> \<not> real_of_int (minSpeechDuration (initializeProcessor_config 48000)) \<le> (256 / 3 :: real)"
proof -
  let ?f = "replicate 4096 (0::real)"
  let ?p0 = "started_processor 16000"
  let ?p1 = "?p0\<lparr>audioBuffer := [?f]\<rparr>"
  let ?p2 = "?p0\<lparr>audioBuffer := [?f, ?f]\<rparr>"
  have c: "chunkDuration (initializeProcessor_config 16000) = 500"
    "overlapDuration (initializeProcessor_config 16000) = 100"
    "sampleRate (initializeProcessor_config 16000) = 16000"
    by (simp_all add: initializeProcessor_config_def)
  have s1: "fst (processAudioFrame ?f 100 ''a'' (fixed_random 0.5) ?p0) = ?p1"
    by (subst processAudioFrame_buffer) (simp_all add: started_processor_simps c)
  have s2: "fst (processAudioFrame ?f 300 ''b'' (fixed_random 0.5) ?p1) = ?p2"
    by (subst processAudioFrame_buffer) (simp_all add: started_processor_simps c)
  have s3: "map chunk_duration (chunkQueue (fst (processAudioFrame ?f 600 ''c'' (fixed_random 0.5) ?p2)))
              = [Some 768]"
    by (subst processAudioFrame_cut)
       (simp_all add: started_processor_simps c chunk_duration_make_chunk)
  have "fst (processAudioFrames
        [(?f, 100, ''a'', fixed_random 0.5), (?f, 300, ''b'', fixed_random 0.5),
         (?f, 600, ''c'', fixed_random 0.5)] ?p0)
        = fst (processAudioFrame ?f 600 ''c'' (fixed_random 0.5) ?p2)"
    using s1 s2 by (simp add: split_beta Let_def)
  moreover have "map chunk_duration
       (chunkQueue (fst (processAudioFrame (replicate 4096 0) 500 ''a'' (fixed_random 0.5)
          (started_processor 48000)))) = [Some (256 / 3)]"
    by (subst processAudioFrame_cut)
       (simp_all add: started_processor_simps chunk_duration_make_chunk
          initializeProcessor_config_def)
  ultimately show ?thesis
    using s3 by (simp add: c split_beta) (simp add: initializeProcessor_config_def)
qed

text \<open>
  Claim C8, amended. A chunk is cut exactly when a frame arrives at least
  \<open>chunkDuration\<close> ms of wall-clock time after the previous cut (or start); its
  duration is the number of samples buffered since then, divided by the sample rate,
  times 1000, which is not negative. \<open>minSpeechDuration\<close> and \<open>overlapDuration\<close>
  are not consulted.
\<close>

theorem chunk_duration_amended:
  assumes "sampleRate (proc_config p) > 0"
  shows "(isProcessing p \<and> chunkDuration (proc_config p) \<le> now - lastProcessTime p \<longrightarrow>
            (\<exists>c. chunkQueue (fst (processAudioFrame audioData now rid rnd p))
                   = filter (\<lambda>chunk. now - chunk_timestamp chunk < 30000) (chunkQueue p) @ [c]
                 \<and> chunk_timestamp c = now
                 \<and> chunk_duration c
                     = Some (real (length (concat (audioBuffer p @ [audioData])))
                             / real_of_int (sampleRate (proc_config p)) * 1000)
                 \<and> (\<exists>d. chunk_duration c = Some d \<and> 0 \<le> d)))
       \<and> (\<not> (isProcessing p \<and> chunkDuration (proc_config p) \<le> now - lastProcessTime p) \<longrightarrow>
            chunkQueue (fst (processAudioFrame audioData now rid rnd p)) = chunkQueue p)"
proof (intro conjI impI)
  assume a: "isProcessing p \<and> chunkDuration (proc_config p) \<le> now - lastProcessTime p"
  let ?c = "make_chunk now rid rnd (proc_config p) (concat (audioBuffer p @ [audioData]))
              (fst (detectVoiceActivity (concat (audioBuffer p @ [audioData])) (energyHistory p)))"
  have "chunkQueue (fst (processAudioFrame audioData now rid rnd p))
          = filter (\<lambda>chunk. now - chunk_timestamp chunk < 30000) (chunkQueue p) @ [?c]"
    using a by (simp add: processAudioFrame_cut chunk_duration_make_chunk)
  moreover have "chunk_timestamp ?c = now" by (simp add: chunk_duration_make_chunk)
  moreover have "chunk_duration ?c
     = Some (real (length (concat (audioBuffer p @ [audioData])))
              / real_of_int (sampleRate (proc_config p)) * 1000)"
    using assms by (simp add: chunk_duration_make_chunk)
  moreover have "0 \<le> real (length (concat (audioBuffer p @ [audioData])))
              / real_of_int (sampleRate (proc_config p)) * 1000"
    using assms by simp
  ultimately show "\<exists>c. chunkQueue (fst (processAudioFrame audioData now rid rnd p))
                   = filter (\<lambda>chunk. now - chunk_timestamp chunk < 30000) (chunkQueue p) @ [c]
                 \<and> chunk_timestamp c = now
                 \<and> chunk_duration c
                     = Some (real (length (concat (audioBuffer p @ [audioData])))
                             / real_of_int (sampleRate (proc_config p)) * 1000)
                 \<and> (\<exists>d. chunk_duration c = Some d \<and> 0 \<le> d)"
    by blast
next
  assume "\<not> (isProcessing p \<and> chunkDuration (proc_config p) \<le> now - lastProcessTime p)"
  then show "chunkQueue (fst (processAudioFrame audioData now rid rnd p)) = chunkQueue p"
    by (rule processAudioFrame_nocut)
qed

text \<open>
  The amended claim at a started 16 kHz processor and a one-sample frame arriving after
  500 ms: the chunk lasts 0.0625 ms.
\<close>

theorem chunk_duration_amended_witness:
  "sampleRate (proc_config (started_processor 16000)) > 0
   \<and> isProcessing (started_processor 16000)
   \<and> chunkDuration (proc_config (started_processor 16000))
        \<le> 500 - lastProcessTime (started_processor 16000)
   \<and> map chunk_duration
        (chunkQueue (fst (processAudioFrame [0.5] 500 ''a'' (fixed_random 0.5)
           (started_processor 16000)))) = [Some 0.0625]"
proof -
  have c: "sampleRate (proc_config (started_processor 16000)) > 0"
    by (simp add: started_processor_simps initializeProcessor_config_def)
  show ?thesis
    using chunk_duration_amended [OF c, of 500 "[0.5]" "''a''" "fixed_random 0.5"]
    by (auto simp add: started_processor_simps initializeProcessor_config_def)
qed

section \<open>Properties of the session\<close>

text \<open>
  Claim C2 fails on the code: \<open>handleTranscriptionResults\<close> stores
  \<open>!data.is_final\<close>. A Results message with one alternative and \<open>is_final = true\<close>
  is delivered with \<open>isFinal = false\<close>, and one with \<open>is_final = false\<close> with
  \<open>isFinal = true\<close>.
\<close>

theorem results_isFinal_inverted:
  "map isFinal (transcriptionCalls
       (handleWebSocketMessage (Results final_results) 1000 fresh_service)) = [False]
   \<and> map isFinal (transcriptionCalls
       (handleWebSocketMessage (Results interim_results) 1000 fresh_service)) = [True]"
  by (simp add: handleWebSocketMessage_def handleTranscriptionResults_def final_results_def
      interim_results_def fresh_service_def new_OptimizedTranscriptionService_def truthy_bool_def)

lemma started_service_socket:
  "isConnected (fst started_service)"
  "map_option readyState (websocket (fst started_service)) = Some OPEN"
  "websocket (fst started_service) \<noteq> None"
  by (simp_all add: started_service_def service_start_def good_env_def validateAudioStream_def
      getAudioTracks_def live_audio_track_def new_OptimizedTranscriptionService_def
      default_service_config_def applyHDProcessing_def connectWebSocket_def setTimeout_def
      add_timer_def new_Browser_def ws_onopen_def initializeProcessor_def processor_start_def
      startConnectionMonitoring_def setInterval_def Let_def split_beta)

text \<open>
  Claim C10. Whatever the underlying \<open>send\<close> does, \<open>sendAudioData\<close> returns
  normally and calls no callback; the service is unchanged when it is not connected, has
  no socket or the socket is not OPEN, and also when \<open>send\<close> throws.
\<close>

theorem sendAudioData_never_throws:
  "\<exists>s'. sendAudioData send audioData s = Inr s'
        \<and> transcriptionCalls s' = transcriptionCalls s
        \<and> connectionStateCalls s' = connectionStateCalls s
        \<and> ((\<not> isConnected s \<or> websocket s = None
             \<or> (\<exists>ws. websocket s = Some ws \<and> readyState ws \<noteq> OPEN)) \<longrightarrow> s' = s)
        \<and> ((\<exists>ws e. websocket s = Some ws \<and> send (Binary audioData) ws = Inl e) \<longrightarrow> s' = s)"
  by (auto simp add: sendAudioData_def split: option.splits sum.splits)

text \<open>
  Claim C10 at a service that was never started, and at a connected service whose socket
  throws on every send.
\<close>

theorem sendAudioData_never_throws_witness:
  "sendAudioData ws_send [1, 2] fresh_service = Inr fresh_service
   \<and> sendAudioData failing_send [1, 2] (fst started_service) = Inr (fst started_service)"
proof
  have "\<not> isConnected fresh_service"
    by (simp add: fresh_service_def new_OptimizedTranscriptionService_def)
  then show "sendAudioData ws_send [1, 2] fresh_service = Inr fresh_service"
    using sendAudioData_never_throws [of ws_send "[1, 2]" fresh_service] by auto
next
  obtain ws where "websocket (fst started_service) = Some ws"
    using started_service_socket(3) by auto
  then have "\<exists>ws e. websocket (fst started_service) = Some ws
                \<and> failing_send (Binary [1, 2]) ws = Inl e"
    by (simp add: failing_send_def)
  then show "sendAudioData failing_send [1, 2] (fst started_service) = Inr (fst started_service)"
    using sendAudioData_never_throws [of failing_send "[1, 2]" "fst started_service"] by auto
qed

subsection \<open>Reconnection\<close>

text \<open>
  Only \<open>attemptReconnection\<close> schedules a reconnection, and it counts each one in
  \<open>reconnectAttempts\<close>; only \<open>onopen\<close> resets the counter. So along any run of
  events without a successful open, the number of reconnections scheduled minus the
  counter stays the same.
\<close>

lemma reconnects_scheduled_simps:
  "reconnects_scheduled (snd (add_timer cb ms rep b)) =
     reconnects_scheduled b + (if cb = ServiceReconnect then 1 else 0)"
  "reconnects_scheduled (clearInterval tid b) = reconnects_scheduled b"
  "reconnects_scheduled (timer_fired t b) = reconnects_scheduled b"
  "reconnects_scheduled (b\<lparr>activeTimers := ts\<rparr>) = reconnects_scheduled b"
  "reconnects_scheduled (b\<lparr>nextSocketId := n\<rparr>) = reconnects_scheduled b"
  by (simp_all add: reconnects_scheduled_def add_timer_def clearInterval_def timer_fired_def
      Let_def)

lemma service_stop_keeps:
  "config (fst (service_stop s b)) = config s"
  "reconnectAttempts (fst (service_stop s b)) = reconnectAttempts s"
  "reconnects_scheduled (snd (service_stop s b)) = reconnects_scheduled b"
  "scheduled (snd (service_stop s b)) = scheduled b"
  by (simp_all add: service_stop_def disconnectWebSocket_def Let_def reconnects_scheduled_def
      clearInterval_def split: option.splits)

lemma attemptReconnection_keeps:
  "config (fst (attemptReconnection s b)) = config s"
  "int (reconnects_scheduled (snd (attemptReconnection s b)))
     - reconnectAttempts (fst (attemptReconnection s b))
   = int (reconnects_scheduled b) - reconnectAttempts s"
  "reconnectAttempts s \<le> maxReconnectAttempts (config s) \<Longrightarrow>
     reconnectAttempts (fst (attemptReconnection s b)) \<le> maxReconnectAttempts (config s)"
  by (simp_all add: attemptReconnection_def service_stop_keeps setTimeout_def
      reconnects_scheduled_simps)

lemma ws_onclose_keeps:
  "config (fst (ws_onclose s b)) = config s"
  "int (reconnects_scheduled (snd (ws_onclose s b))) - reconnectAttempts (fst (ws_onclose s b))
   = int (reconnects_scheduled b) - reconnectAttempts s"
  "reconnectAttempts s \<le> maxReconnectAttempts (config s) \<Longrightarrow>
     reconnectAttempts (fst (ws_onclose s b)) \<le> maxReconnectAttempts (config s)"
  using attemptReconnection_keeps(3)
          [of "s\<lparr>isConnected := False, connectionStateCalls := connectionStateCalls s @ [False]\<rparr>" b]
  by (simp_all add: ws_onclose_def attemptReconnection_keeps)

lemma socket_state_keeps:
  "config (socket_state sid st s) = config s"
  "reconnectAttempts (socket_state sid st s) = reconnectAttempts s"
  by (simp_all add: socket_state_def split: option.splits)

lemma connectWebSocket_keeps:
  assumes "\<forall>t. outcome \<noteq> Opens t"
  shows "config (fst (snd (connectWebSocket outcome s b))) = config s"
    and "reconnectAttempts (fst (snd (connectWebSocket outcome s b))) = reconnectAttempts s"
    and "reconnects_scheduled (snd (snd (connectWebSocket outcome s b))) = reconnects_scheduled b"
  using assms
  by (cases outcome; simp add: connectWebSocket_def setTimeout_def Let_def split_beta
      reconnects_scheduled_simps)+

lemma disconnectWebSocket_keeps:
  "config (disconnectWebSocket s) = config s"
  "reconnectAttempts (disconnectWebSocket s) = reconnectAttempts s"
  by (simp_all add: disconnectWebSocket_def split: option.splits)

lemma service_reconnect_keeps:
  assumes "\<forall>t. outcome \<noteq> Opens t"
  shows "config (fst (service_reconnect outcome penv s b)) = config s"
    and "reconnectAttempts (fst (service_reconnect outcome penv s b)) = reconnectAttempts s"
    and "reconnects_scheduled (snd (service_reconnect outcome penv s b)) = reconnects_scheduled b"
  using connectWebSocket_keeps [OF assms, of "disconnectWebSocket s" b]
  by (simp_all add: service_reconnect_def Let_def split_beta disconnectWebSocket_keeps
      split: option.splits)

lemma send_heartbeat_keeps:
  assumes "send_heartbeat s = Inr s1"
  shows "config s1 = config s" and "reconnectAttempts s1 = reconnectAttempts s"
    and "lastHeartbeatTime s1 = lastHeartbeatTime s" and "mediaStream s1 = mediaStream s"
  using assms
  by (auto simp add: send_heartbeat_def split: option.splits if_splits sum.splits)

lemma connection_check_keeps:
  assumes "\<forall>t. outcome \<noteq> Opens t"
  shows "config (fst (connection_check now outcome penv s b)) = config s"
    and "reconnectAttempts (fst (connection_check now outcome penv s b)) = reconnectAttempts s"
    and "reconnects_scheduled (snd (connection_check now outcome penv s b)) = reconnects_scheduled b"
  by (auto simp add: connection_check_def Let_def service_reconnect_keeps [OF assms]
      send_heartbeat_keeps split: sum.splits)

lemma handleWebSocketMessage_keeps:
  "config (handleWebSocketMessage msg now s) = config s"
  "reconnectAttempts (handleWebSocketMessage msg now s) = reconnectAttempts s"
  "lastHeartbeatTime (handleWebSocketMessage msg now s) = lastHeartbeatTime s"
  "websocket (handleWebSocketMessage msg now s) = websocket s"
  by (simp_all add: handleWebSocketMessage_def handleTranscriptionResults_def
      split: message.splits option.splits list.splits)

lemma audio_frame_keeps:
  "config (audio_frame audioData now rid rnd s) = config s"
  "reconnectAttempts (audio_frame audioData now rid rnd s) = reconnectAttempts s"
  "websocket (audio_frame audioData now rid rnd s) = websocket s"
  by (simp_all add: audio_frame_def split_beta split: option.splits)

lemma service_step_keeps:
  assumes "\<not> is_open e"
  shows "config (fst (service_step e (s, b))) = config s"
    and "attempt_budget (service_step e (s, b)) = attempt_budget (s, b)"
    and "reconnectAttempts s \<le> maxReconnectAttempts (config s) \<Longrightarrow>
           reconnectAttempts (fst (service_step e (s, b))) \<le> maxReconnectAttempts (config s)"
proof -
  show "config (fst (service_step e (s, b))) = config s"
  proof (cases e)
    case (TimerFires tid now outcome penv)
    then have o: "\<forall>t. outcome \<noteq> Opens t" using assms by (auto simp: is_open_def)
    show ?thesis
      by (simp add: TimerFires service_step_def Let_def service_reconnect_keeps [OF o]
          connection_check_keeps [OF o] split: option.splits timer_callback.splits)
  qed (simp_all add: service_step_def ws_onclose_keeps socket_state_keeps
        handleWebSocketMessage_keeps audio_frame_keeps ws_onopen_def)
  show "attempt_budget (service_step e (s, b)) = attempt_budget (s, b)"
  proof (cases e)
    case (SocketOpens sid now)
    then show ?thesis using assms by (simp add: is_open_def)
  next
    case (SocketCloses sid)
    then show ?thesis
      using ws_onclose_keeps(2) [of "socket_state sid CLOSED s" b]
      by (simp add: service_step_def attempt_budget_def socket_state_keeps)
  next
    case (TimerFires tid now outcome penv)
    then have o: "\<forall>t. outcome \<noteq> Opens t" using assms by (auto simp: is_open_def)
    show ?thesis
      by (simp add: TimerFires service_step_def Let_def attempt_budget_def
          service_reconnect_keeps [OF o] connection_check_keeps [OF o]
          reconnects_scheduled_simps split: option.splits timer_callback.splits)
  qed (simp_all add: service_step_def attempt_budget_def handleWebSocketMessage_keeps
        audio_frame_keeps)
  show "reconnectAttempts (fst (service_step e (s, b))) \<le> maxReconnectAttempts (config s)"
    if le: "reconnectAttempts s \<le> maxReconnectAttempts (config s)"
  proof (cases e)
    case (SocketOpens sid now)
    then show ?thesis using assms by (simp add: is_open_def)
  next
    case (SocketCloses sid)
    then show ?thesis
      using ws_onclose_keeps(3) [of "socket_state sid CLOSED s" b] le
      by (simp add: service_step_def socket_state_keeps)
  next
    case (TimerFires tid now outcome penv)
    then have o: "\<forall>t. outcome \<noteq> Opens t" using assms by (auto simp: is_open_def)
    show ?thesis
      using le
      by (simp add: TimerFires service_step_def Let_def service_reconnect_keeps [OF o]
          connection_check_keeps [OF o] split: option.splits timer_callback.splits)
  qed (simp_all add: le service_step_def handleWebSocketMessage_keeps audio_frame_keeps)
qed

lemma service_run_keeps:
  assumes "\<forall>e\<in>set evs. \<not> is_open e"
    and "reconnectAttempts (fst sb) \<le> maxReconnectAttempts (config (fst sb))"
  shows "config (fst (service_run evs sb)) = config (fst sb)
         \<and> attempt_budget (service_run evs sb) = attempt_budget sb
         \<and> reconnectAttempts (fst (service_run evs sb)) \<le> maxReconnectAttempts (config (fst sb))"
  using assms
proof (induction evs arbitrary: sb)
  case Nil
  then show ?case by simp
next
  case (Cons e evs)
  obtain s b where sb: "sb = (s, b)" by (cases sb)
  have e: "\<not> is_open e" using Cons.prems(1) by simp
  have c: "config (fst (service_step e sb)) = config (fst sb)"
    using service_step_keeps(1) [OF e] by (simp add: sb)
  have l: "reconnectAttempts (fst (service_step e sb))
             \<le> maxReconnectAttempts (config (fst (service_step e sb)))"
    using service_step_keeps(3) [OF e, of s b] Cons.prems(2) c by (simp add: sb)
  have a: "attempt_budget (service_step e sb) = attempt_budget sb"
    using service_step_keeps(2) [OF e] by (simp add: sb)
  show ?case
    using Cons.IH [of "service_step e sb"] Cons.prems(1) l c a by simp
qed

text \<open>
  Claim C5. From a service whose attempt counter is 0, along any run of events that holds
  no successful open (closes, messages, timers, frames, in any order and number), at
  most \<open>maxReconnectAttempts\<close> reconnections are scheduled. A close that finds the
  counter at the cap schedules nothing and stops the service; below the cap it schedules
  one reconnection after \<open>reconnectDelay\<close>; a successful open resets the counter to 0.
  The service the manager constructs has the default cap, 5.
\<close>

theorem reconnect_attempts_bounded:
  "(reconnectAttempts s = 0 \<and> 0 \<le> maxReconnectAttempts (config s)
      \<and> (\<forall>e\<in>set evs. \<not> is_open e) \<longrightarrow>
      int (reconnects_scheduled (snd (service_run evs (s, b)))) - int (reconnects_scheduled b)
        \<le> maxReconnectAttempts (config s))
   \<and> (maxReconnectAttempts (config s1) \<le> reconnectAttempts s1 \<longrightarrow>
        scheduled (snd (ws_onclose s1 b1)) = scheduled b1
        \<and> reconnectAttempts (fst (ws_onclose s1 b1)) = reconnectAttempts s1
        \<and> websocket (fst (ws_onclose s1 b1)) = None
        \<and> \<not> isConnected (fst (ws_onclose s1 b1))
        \<and> connectionCheckInterval (fst (ws_onclose s1 b1)) = None
        \<and> audioProcessor (fst (ws_onclose s1 b1)) = None)
   \<and> reconnectAttempts (ws_onopen now s2) = 0
   \<and> maxReconnectAttempts (config (new_OptimizedTranscriptionService (service_config_of opts))) = 5
   \<and> (reconnectAttempts s3 < maxReconnectAttempts (config s3) \<longrightarrow>
        reconnectAttempts (fst (ws_onclose s3 b3)) = reconnectAttempts s3 + 1
        \<and> scheduled (snd (ws_onclose s3 b3))
            = scheduled b3 @ [\<lparr>timer_id = nextTimerId b3, callback = ServiceReconnect,
                                delay = reconnectDelay (config s3), repeating = False\<rparr>])"
proof (intro conjI impI)
  assume a: "reconnectAttempts s = 0 \<and> 0 \<le> maxReconnectAttempts (config s)
      \<and> (\<forall>e\<in>set evs. \<not> is_open e)"
  then have "attempt_budget (service_run evs (s, b)) = attempt_budget (s, b)
         \<and> reconnectAttempts (fst (service_run evs (s, b))) \<le> maxReconnectAttempts (config s)"
    using service_run_keeps [of evs "(s, b)"] by simp
  then show "int (reconnects_scheduled (snd (service_run evs (s, b)))) - int (reconnects_scheduled b)
        \<le> maxReconnectAttempts (config s)"
    using a by (simp add: attempt_budget_def)
next
  assume "maxReconnectAttempts (config s1) \<le> reconnectAttempts s1"
  then have eq: "ws_onclose s1 b1 = service_stop
       (s1\<lparr>isConnected := False, connectionStateCalls := connectionStateCalls s1 @ [False]\<rparr>) b1"
    by (simp add: ws_onclose_def attemptReconnection_def)
  show "scheduled (snd (ws_onclose s1 b1)) = scheduled b1"
    by (simp add: eq service_stop_keeps)
  show "reconnectAttempts (fst (ws_onclose s1 b1)) = reconnectAttempts s1"
    by (simp add: eq service_stop_keeps)
  show "websocket (fst (ws_onclose s1 b1)) = None"
    by (simp add: eq service_stop_def disconnectWebSocket_def Let_def split: option.splits)
  show "\<not> isConnected (fst (ws_onclose s1 b1))"
    by (simp add: eq service_stop_def disconnectWebSocket_def Let_def split: option.splits)
  show "connectionCheckInterval (fst (ws_onclose s1 b1)) = None"
    by (simp add: eq service_stop_def disconnectWebSocket_def Let_def split: option.splits)
  show "audioProcessor (fst (ws_onclose s1 b1)) = None"
    by (simp add: eq service_stop_def disconnectWebSocket_def Let_def split: option.splits)
next
  show "reconnectAttempts (ws_onopen now s2) = 0" by (simp add: ws_onopen_def)
next
  show "maxReconnectAttempts (config (new_OptimizedTranscriptionService (service_config_of opts))) = 5"
    by (simp add: new_OptimizedTranscriptionService_def service_config_of_def)
next
  assume "reconnectAttempts s3 < maxReconnectAttempts (config s3)"
  then show "reconnectAttempts (fst (ws_onclose s3 b3)) = reconnectAttempts s3 + 1"
    and "scheduled (snd (ws_onclose s3 b3))
            = scheduled b3 @ [\<lparr>timer_id = nextTimerId b3, callback = ServiceReconnect,
                                delay = reconnectDelay (config s3), repeating = False\<rparr>]"
    by (simp_all add: ws_onclose_def attemptReconnection_def setTimeout_def add_timer_def Let_def)
qed

text \<open>
  Claim C5 at the default configuration (cap 5): six closes in a row, a close at the cap,
  and a first close.
\<close>

theorem reconnect_attempts_bounded_witness:
  "int (reconnects_scheduled (snd (service_run six_closes (fresh_service, new_Browser))))
     - int (reconnects_scheduled new_Browser) \<le> maxReconnectAttempts (config fresh_service)
   \<and> scheduled (snd (ws_onclose capped_service new_Browser)) = scheduled new_Browser
   \<and> websocket (fst (ws_onclose capped_service new_Browser)) = None
   \<and> reconnectAttempts (fst (ws_onclose fresh_service new_Browser)) = 1"
proof -
  have h1: "reconnectAttempts fresh_service = 0 \<and> 0 \<le> maxReconnectAttempts (config fresh_service)
        \<and> (\<forall>e\<in>set six_closes. \<not> is_open e)"
    by (simp add: fresh_service_def new_OptimizedTranscriptionService_def
        default_service_config_def six_closes_def is_open_def)
  have h2: "maxReconnectAttempts (config capped_service) \<le> reconnectAttempts capped_service"
    by (simp add: capped_service_def fresh_service_def new_OptimizedTranscriptionService_def
        default_service_config_def)
  have h3: "reconnectAttempts fresh_service < maxReconnectAttempts (config fresh_service)"
    by (simp add: fresh_service_def new_OptimizedTranscriptionService_def
        default_service_config_def)
  show ?thesis
    using reconnect_attempts_bounded
            [of fresh_service six_closes new_Browser capped_service new_Browser 0 fresh_service
                "default_options ''key''" fresh_service new_Browser]
          h1 h2 h3
    by (simp add: fresh_service_def new_OptimizedTranscriptionService_def)
qed

subsection \<open>Heartbeat\<close>

text \<open>
  Claim C6 fails on the code: \<open>lastHeartbeatTime\<close> is written by \<open>onopen\<close> only,
  and \<open>handleWebSocketMessage\<close> leaves it alone. A service opened at time 0 sends a
  KeepAlive at 10, 20 and 30 s and receives a Results message at 35 s; the check at 40 s
  still finds 40 s since the last heartbeat and replaces the socket, 5 s after inbound
  traffic.
\<close>

theorem heartbeat_ignores_inbound_traffic:
  "(case service_run heartbeat_ticks started_service of
      (s, b) \<Rightarrow> map_option ws_id (websocket s) = Some 1
                \<and> map_option sent (websocket s) = Some [keepAlive, keepAlive, keepAlive]
                \<and> length (transcriptionCalls s) = 1
                \<and> lastHeartbeatTime s = 0)
   \<and> (case service_run (heartbeat_ticks @ [TimerFires 2 40000 (Opens 40100) reconnect_env])
            started_service of
        (s, b) \<Rightarrow> map_option ws_id (websocket s) = Some 2
                  \<and> map_option sent (websocket s) = Some []
                  \<and> nextSocketId b = 3)"
  by (simp add: heartbeat_ticks_def started_service_def reconnect_env_def service_defs)

subsection \<open>Accepted chunks\<close>

lemma foldl_squares_replicate:
  "foldl (\<lambda>sumSquares x. sumSquares + x * x) a (replicate n y) = a + real n * (y * y)"
  by (induction n arbitrary: a) (simp_all add: algebra_simps)

lemma calculateEnergy_replicate:
  "0 < n \<Longrightarrow> calculateEnergy (replicate n x) = Some \<bar>x\<bar>"
  by (simp add: calculateEnergy_def foldl_squares_replicate)

lemma number_toString_4096: "number_toString 4096 = ''4096''"
  by (simp add: number_toString_def digit_char_def decimal_digits.simps [of 4096]
      decimal_digits.simps [of 409] decimal_digits.simps [of 40] decimal_digits.simps [of 4])

text \<open>
  Claim C1 fails on the code: \<open>processTranscriptionChunk\<close> hands an accepted chunk to
  the placeholder \<open>performTranscription\<close>, and nothing calls \<open>sendAudioData\<close>. On a
  connected service with an OPEN socket a quiet frame followed by a loud one yields a
  chunk with \<open>isSpeech = true\<close> and confidence 1; the socket has sent nothing, and the
  consumer receives the placeholder text.
\<close>

theorem accepted_chunk_not_sent:
  "(case service_run speech_frames started_service of
      (s, b) \<Rightarrow>
        isConnected s
        \<and> map_option readyState (websocket s) = Some OPEN
        \<and> map_option (\<lambda>p. map (\<lambda>c. (chunk_isSpeech c, chunk_confidence c)) (chunkQueue p))
             (audioProcessor s) = Some [(False, Some (1 / 6)), (True, Some 1)]
        \<and> map_option sent (websocket s) = Some []
        \<and> map res_text (transcriptionCalls s) = [''[Audio chunk: 4096 samples]''])"
  by (simp add: speech_frames_def started_service_def service_defs audio_frame_def
      processAudioFrame_def processAudioChunk_def make_chunk_def detectVoiceActivity_def
      calculateEnergy_replicate historySize_def calculateBackgroundNoise_def vad_isSpeech_def
      vad_confidence_def js_greater_def js_less_def handleSilencePeriod_def
      cleanupOldChunks_def processTranscriptionChunk_def performTranscription_def
      processor_callback_def length_convertToPCM number_toString_4096)

section \<open>Properties of the manager\<close>

lemma manager_stop_torn_down:
  "transcriptionService (fst (manager_stop m b)) = None"
  "mgr_audioProcessor (fst (manager_stop m b)) = None"
  "mgr_hdProcessor (fst (manager_stop m b)) = None"
  "qualityAnalyzer (fst (manager_stop m b)) = None"
  "accuracyValidator (fst (manager_stop m b)) = None"
  "streamMonitor (fst (manager_stop m b)) = None"
  "mgr_mediaStream (fst (manager_stop m b)) = None"
  "\<not> isActive (fst (manager_stop m b))"
  "errorCalls (fst (manager_stop m b)) = errorCalls m"
  "scheduled (snd (manager_stop m b)) = scheduled b"
  by (simp_all add: manager_stop_def Let_def service_stop_keeps clearInterval_def
      split: option.splits)

lemma connectWebSocket_intervals:
  "filter repeating (scheduled (snd (snd (connectWebSocket outcome s b))))
     = filter repeating (scheduled b)"
  by (cases outcome)
     (simp_all add: connectWebSocket_def setTimeout_def add_timer_def Let_def split_beta)

lemma connectWebSocket_result:
  "fst (connectWebSocket (Opens t) s b) = Some True"
  "\<not> isConnected s \<Longrightarrow> \<forall>t. outcome \<noteq> Opens t \<Longrightarrow> fst (connectWebSocket outcome s b) = Some False"
  by (cases outcome; simp add: connectWebSocket_def setTimeout_def add_timer_def Let_def split_beta)+

lemma service_start_failed_intervals:
  assumes "fst (service_start env stream s b) = Some False"
  shows "filter repeating (scheduled (snd (snd (service_start env stream s b))))
           = filter repeating (scheduled b)"
  using assms connectWebSocket_intervals
  by (auto simp add: service_start_def Let_def split_beta service_stop_keeps
      startConnectionMonitoring_def
      split: option.splits bool.splits if_splits)

lemma processor_start_fails:
  "\<not> (contextCreated penv \<and> workletInitialized penv \<and> processingStarted penv) \<Longrightarrow>
   \<not> fst (processor_start penv stream p)"
  by (auto simp add: processor_start_def Let_def)

lemma service_start_connect_fails:
  assumes "\<not> isConnected s" "\<forall>t. connect env \<noteq> Opens t"
  shows "fst (service_start env stream s b) = Some False"
proof -
  have "fst (connectWebSocket (connect env) s' b) = Some False" if "\<not> isConnected s'" for s'
    using connectWebSocket_result(2) [OF that assms(2)] .
  then show ?thesis
    using assms(1)
    by (auto simp add: service_start_def Let_def split_beta applyHDProcessing_def
        split: option.splits bool.splits)
qed

lemma service_start_processor_fails:
  assumes "\<not> isConnected s" "cfg_enableRealtime (config s)"
    "\<not> (contextCreated (procEnv env) \<and> workletInitialized (procEnv env)
        \<and> processingStarted (procEnv env))"
  shows "fst (service_start env stream s b) = Some False"
proof (cases "\<exists>t. connect env = Opens t")
  case False
  then show ?thesis using service_start_connect_fails [OF assms(1)] by simp
next
  case True
  then obtain t where t: "connect env = Opens t" by blast
  have c: "config (fst (snd (connectWebSocket (Opens t) s' b))) = config s'" for s'
    by (simp add: connectWebSocket_def setTimeout_def add_timer_def Let_def split_beta
        ws_onopen_def)
  show ?thesis
    using assms(2) processor_start_fails [OF assms(3)]
    by (auto simp add: service_start_def Let_def split_beta applyHDProcessing_def t c
        connectWebSocket_result(1) initializeProcessor_def
        split: option.splits bool.splits)
qed

text \<open>
  \<open>initialize\<close> reports a failure by its result only. When no stream can be acquired,
  and when the socket does not open within ten seconds, it returns false and
  \<open>onError\<close> has not been called.
\<close>

lemma initialize_failure_no_onError:
  "fst (initialize no_stream_env None fresh_manager new_Browser) = Some False
   \<and> errorCalls (fst (snd (initialize no_stream_env None fresh_manager new_Browser))) = []
   \<and> fst (initialize timeout_env None fresh_manager new_Browser) = Some False
   \<and> errorCalls (fst (snd (initialize timeout_env None fresh_manager new_Browser))) = []"
  by (simp add: manager_defs service_defs)

text \<open>
  The state at the return of a failing \<open>initialize\<close>: \<open>cleanup\<close> has run, every
  component field of the manager and its stream are null, the manager is not active, no
  interval was left scheduled, and \<open>onError\<close> has not been called. \<open>initialize\<close>
  returns false when no stream is acquired, when the socket does not open, and when the
  real-time processor is enabled and its audio context or worklet fails.
\<close>

lemma initialize_failure_teardown:
  "(fst (initialize env audioSource m b) = Some False \<longrightarrow>
      (case snd (initialize env audioSource m b) of
         (m', b') \<Rightarrow>
           transcriptionService m' = None \<and> mgr_audioProcessor m' = None
           \<and> mgr_hdProcessor m' = None \<and> qualityAnalyzer m' = None
           \<and> accuracyValidator m' = None \<and> streamMonitor m' = None
           \<and> mgr_mediaStream m' = None \<and> \<not> isActive m'
           \<and> errorCalls m' = errorCalls m
           \<and> filter repeating (scheduled b') = filter repeating (scheduled b)))
   \<and> (audioSource = None \<and> getAudioStream env = None \<longrightarrow>
        fst (initialize env audioSource m b) = Some False)
   \<and> ((\<forall>t. connect (serviceEnv env) \<noteq> Opens t) \<longrightarrow>
        fst (initialize env audioSource m b) = Some False)
   \<and> (opt_enableRealtime (options m)
        \<and> \<not> (contextCreated (procEnv (serviceEnv env))
             \<and> workletInitialized (procEnv (serviceEnv env))
             \<and> processingStarted (procEnv (serviceEnv env))) \<longrightarrow>
        fst (initialize env audioSource m b) = Some False)"
proof (intro conjI impI)
  let ?svc = "new_OptimizedTranscriptionService (service_config_of (options m))"
  have fresh: "\<not> isConnected ?svc" "cfg_enableRealtime (config ?svc) = opt_enableRealtime (options m)"
    by (simp_all add: new_OptimizedTranscriptionService_def service_config_of_def)
  {
    assume f: "fst (initialize env audioSource m b) = Some False"
    show "case snd (initialize env audioSource m b) of
         (m', b') \<Rightarrow>
           transcriptionService m' = None \<and> mgr_audioProcessor m' = None
           \<and> mgr_hdProcessor m' = None \<and> qualityAnalyzer m' = None
           \<and> accuracyValidator m' = None \<and> streamMonitor m' = None
           \<and> mgr_mediaStream m' = None \<and> \<not> isActive m'
           \<and> errorCalls m' = errorCalls m
           \<and> filter repeating (scheduled b') = filter repeating (scheduled b)"
    proof (cases "case audioSource of Some a \<Rightarrow> Some a | None \<Rightarrow> getAudioStream env")
      case None
      then show ?thesis
        by (simp add: initialize_def manager_cleanup_def split_beta manager_stop_torn_down)
    next
      case (Some src)
      let ?r = "service_start (serviceEnv env) (Some src) ?svc b"
      have r: "fst ?r = Some False"
        using f Some
        by (auto simp add: initialize_def manager_cleanup_def split_beta Let_def
            split: option.splits bool.splits if_splits)
      have i: "filter repeating (scheduled (snd (snd ?r))) = filter repeating (scheduled b)"
        using service_start_failed_intervals [OF r] .
      show ?thesis
        using r i Some
        by (simp add: initialize_def manager_cleanup_def split_beta Let_def
            manager_stop_torn_down)
    qed
  }
  {
    assume "audioSource = None \<and> getAudioStream env = None"
    then show "fst (initialize env audioSource m b) = Some False"
      by (simp add: initialize_def split_beta)
  }
  {
    assume a: "\<forall>t. connect (serviceEnv env) \<noteq> Opens t"
    have "fst (service_start (serviceEnv env) stream ?svc b) = Some False" for stream
      using service_start_connect_fails [OF fresh(1) a] .
    then show "fst (initialize env audioSource m b) = Some False"
      by (simp add: initialize_def split_beta Let_def split: option.splits)
  }
  {
    assume a: "opt_enableRealtime (options m)
        \<and> \<not> (contextCreated (procEnv (serviceEnv env))
             \<and> workletInitialized (procEnv (serviceEnv env))
             \<and> processingStarted (procEnv (serviceEnv env)))"
    have "fst (service_start (serviceEnv env) stream ?svc b) = Some False" for stream
      using service_start_processor_fails [of ?svc "serviceEnv env"] fresh a by simp
    then show "fst (initialize env audioSource m b) = Some False"
      by (simp add: initialize_def split_beta Let_def split: option.splits)
  }
qed

text \<open>
  That state at a connection that times out and at a capture that yields no stream.
\<close>

lemma initialize_failure_teardown_witness:
  "fst (initialize timeout_env None fresh_manager new_Browser) = Some False
   \<and> transcriptionService (fst (snd (initialize timeout_env None fresh_manager new_Browser))) = None
   \<and> qualityAnalyzer (fst (snd (initialize timeout_env None fresh_manager new_Browser))) = None
   \<and> mgr_mediaStream (fst (snd (initialize timeout_env None fresh_manager new_Browser))) = None
   \<and> errorCalls (fst (snd (initialize timeout_env None fresh_manager new_Browser))) = []
   \<and> filter repeating
        (scheduled (snd (snd (initialize timeout_env None fresh_manager new_Browser)))) = []
   \<and> fst (initialize no_stream_env None fresh_manager new_Browser) = Some False"
proof -
  have h1: "\<forall>t. connect (serviceEnv timeout_env) \<noteq> Opens t"
    by (simp add: timeout_env_def good_manager_env_def good_env_def)
  have h2: "(None :: MediaStream option) = None \<and> getAudioStream no_stream_env = None"
    by (simp add: getAudioStream_def no_stream_env_def good_manager_env_def)
  have e: "errorCalls fresh_manager = []" "scheduled new_Browser = []"
    by (simp_all add: fresh_manager_def new_EnhancedTranscriptionManager_def new_Browser_def)
  show ?thesis
    using initialize_failure_teardown [of timeout_env None fresh_manager new_Browser] h1
      initialize_failure_teardown [of no_stream_env None fresh_manager new_Browser] h2
    by (simp add: split_beta e)
qed

text \<open>
  Claim C3 fails on the code. \<open>stop\<close> closes the socket with its \<open>onclose\<close> handler
  still attached, and the handler of a stopped service still schedules a reconnection.
  When the socket does not open within ten seconds, \<open>initialize\<close> returns false with the
  manager's fields reset and without a call of \<open>onError\<close>; the service it constructed
  and forgot then receives the close event of the socket it closed, schedules
  \<open>reconnect\<close>, and three seconds later opens a second socket: it is connected, reports
  the connection to its callback, and a new connection timeout is pending.
\<close>

theorem initialize_failure_leaves_session_running:
  "(case initialize timeout_env None fresh_manager new_Browser of
      (returned, m, b) \<Rightarrow>
        returned = Some False
        \<and> transcriptionService m = None \<and> mgr_mediaStream m = None \<and> \<not> isActive m
        \<and> errorCalls m = []
        \<and> (case service_start (serviceEnv timeout_env) (Some [live_audio_track])
                   (new_OptimizedTranscriptionService (service_config_of (options fresh_manager)))
                   new_Browser of
             (started, service, b0) \<Rightarrow>
               started = Some False \<and> b0 = b
               \<and> websocket service = None \<and> \<not> isConnected service
               \<and> activeTimers b = []
               \<and> (case service_run orphan_events (service, b) of
                    (service', b') \<Rightarrow>
                      isConnected service'
                      \<and> map_option ws_id (websocket service') = Some 2
                      \<and> map_option readyState (websocket service') = Some OPEN
                      \<and> reconnectAttempts service' = 0
                      \<and> connectionStateCalls service' = [False, True]
                      \<and> map callback (scheduled b')
                          = [ConnectTimeoutCheck, ServiceReconnect, ConnectTimeoutCheck]
                      \<and> map callback (activeTimers b') = [ConnectTimeoutCheck])))"
  by (simp add: orphan_events_def manager_defs service_defs ws_onclose_def
      attemptReconnection_def socket_state_def reconnect_env_def)

text \<open>
  Claim C4 fails on the code: \<open>startMetricsCollection\<close> drops the id of its interval,
  so \<open>stop\<close> cannot clear it. After a successful \<open>initialize\<close> four timers are
  active; \<open>stop\<close> clears the connection check and the stream monitor, and leaves the
  metrics interval (every second, for ever) and the connection timeout of
  \<open>connectWebSocket\<close> (once, after ten seconds).
\<close>

theorem stop_leaves_metrics_interval:
  "(case initialize good_manager_env None fresh_manager new_Browser of
      (started, m, b) \<Rightarrow>
        started = Some True
        \<and> map callback (activeTimers b)
            = [ConnectTimeoutCheck, ConnectionCheck, CheckHealth, CollectMetrics]
        \<and> (case manager_stop m b of
             (m', b') \<Rightarrow>
               \<not> isActive m' \<and> transcriptionService m' = None
               \<and> map (\<lambda>t. (callback t, delay t, repeating t)) (activeTimers b')
                   = [(ConnectTimeoutCheck, 10000, False), (CollectMetrics, 1000, True)]))"
  by (simp add: manager_defs service_defs)

end
